theory Spec2Isabelle
  imports Complex_Main
begin

section \<open>JavaScript primitives used by the server\<close>

text \<open>
  Strings are lists of 8-bit characters (code units below 256).  Numbers that the code
  obtains from \<^verbatim>\<open>parseInt\<close> are modelled as mathematical integers; \<^verbatim>\<open>NaN\<close> is
  \<open>None\<close>.  An environment is the map \<^verbatim>\<open>process.env\<close>: every value in it is a
  string, an unset variable is \<open>None\<close>.
\<close>

type_synonym env = "string \<rightharpoonup> string"

definition js_whitespace :: "char \<Rightarrow> bool" where
  \<comment> \<open>WhiteSpace and LineTerminator of ECMAScript, restricted to code units below 256:
      TAB, LF, VT, FF, CR, SP, NBSP.\<close>
  "js_whitespace c = ((of_char c :: nat) \<in> {9, 10, 11, 12, 13, 32, 160})"

definition is_digit :: "char \<Rightarrow> bool" where
  "is_digit c = (48 \<le> (of_char c :: nat) \<and> (of_char c :: nat) \<le> 57)"

definition digit_val :: "char \<Rightarrow> int" where
  "digit_val c = int (of_char c) - 48"

definition digits_value :: "string \<Rightarrow> int" where
  "digits_value ds = foldl (\<lambda>acc c. 10 * acc + digit_val c) 0 ds"

definition parseInt :: "string \<Rightarrow> int option" where
  \<comment> \<open>\<^verbatim>\<open>parseInt(s, 10)\<close>: skip leading white space, read an optional sign, then the
      longest run of decimal digits; whatever follows the run is ignored.  No digit at
      all gives \<^verbatim>\<open>NaN\<close>.\<close>
  "parseInt str =
     (let s = dropWhile js_whitespace str;
          sgn = (case s of c # _ \<Rightarrow> (if c = CHR ''-'' then - 1 else 1) | [] \<Rightarrow> (1::int));
          s' = (case s of c # r \<Rightarrow> (if c = CHR ''-'' \<or> c = CHR ''+'' then r else s) | [] \<Rightarrow> s);
          z = takeWhile is_digit s'
      in if z = [] then None else Some (sgn * digits_value z))"

definition js_trim :: "string \<Rightarrow> string" where
  \<comment> \<open>\<^verbatim>\<open>String.prototype.trim\<close>\<close>
  "js_trim s = rev (dropWhile js_whitespace (rev (dropWhile js_whitespace s)))"

fun split_on :: "char \<Rightarrow> string \<Rightarrow> string list" where
  \<comment> \<open>\<^verbatim>\<open>s.split(c)\<close> for a one-character separator: never the empty list.\<close>
  "split_on c [] = [[]]"
| "split_on c (x # xs) =
     (if x = c then [] # split_on c xs
      else (case split_on c xs of p # ps \<Rightarrow> (x # p) # ps | [] \<Rightarrow> [[x]]))"

section \<open>middleware/rateLimiter.js\<close>

definition DEFAULT_WINDOW_MS :: int where
  "DEFAULT_WINDOW_MS = 15 * 60 * 1000"

definition DEFAULT_MAX_REQUESTS :: int where
  "DEFAULT_MAX_REQUESTS = 100"

definition DEFAULT_STRICT_MAX_REQUESTS :: int where
  "DEFAULT_STRICT_MAX_REQUESTS = 5"

definition parseIntWithDefault :: "string option \<Rightarrow> int \<Rightarrow> int" where
  "parseIntWithDefault envValue defaultValue =
     (case envValue of
        None \<Rightarrow> defaultValue
      | Some s \<Rightarrow>
          if s = [] then defaultValue
          else (case parseInt s of
                  None \<Rightarrow> defaultValue
                | Some parsed \<Rightarrow> if parsed > 0 then parsed else defaultValue))"

subsection \<open>Values, requests, responses\<close>

datatype json = JNum int | JReal real | JStr string | JObj "(string \<times> json) list"

datatype body = Empty | Text string | Json json | ErrorPage

record response =
  res_status :: int
  res_type :: string
  res_body :: body

datatype level = LogInfo | LogWarn | LogError

type_synonym console = "(level \<times> string) list"

record js_error =
  err_message :: "string option"
  err_status :: "int option"
  err_statusCode :: "int option"
  err_stack :: "string option"
  err_code :: "string option"

text \<open>
  What the handlers read from an Express request.  \<open>req_path\<close> is the path the router
  matches on, \<open>req_originalUrl\<close> the request target as received, \<open>req_forwardedFor\<close>
  the forwarded-address header and \<open>req_remoteAddress\<close> the address of the socket.
\<close>

record request =
  req_method :: string
  req_path :: string
  req_originalUrl :: string
  req_url :: string
  req_forwardedFor :: "string option"
  req_remoteAddress :: "string option"

text \<open>The \<^verbatim>\<open>||\<close> of JavaScript on strings that may be undefined: the empty string is falsy.\<close>

definition truthy_str :: "string option \<Rightarrow> bool" where
  "truthy_str v = (case v of None \<Rightarrow> False | Some s \<Rightarrow> s \<noteq> [])"

definition or_str :: "string option \<Rightarrow> string option \<Rightarrow> string option" where
  "or_str a b = (if truthy_str a then a else b)"

definition or_lit :: "string option \<Rightarrow> string \<Rightarrow> string" where
  "or_lit a d = (case a of None \<Rightarrow> d | Some s \<Rightarrow> if s = [] then d else s)"

definition truthy_num :: "int option \<Rightarrow> bool" where
  "truthy_num v = (case v of None \<Rightarrow> False | Some n \<Rightarrow> n \<noteq> 0)"

definition digit_char :: "nat \<Rightarrow> char" where
  "digit_char d = ''0123456789'' ! d"

fun digits_of :: "nat \<Rightarrow> string" where
  "digits_of n =
     (if n < 10 then [digit_char n] else digits_of (n div 10) @ [digit_char (n mod 10)])"

definition num_to_string :: "int \<Rightarrow> string" where
  \<comment> \<open>a number inside a template literal; integers print in decimal\<close>
  "num_to_string i = (if i < 0 then CHR ''-'' # digits_of (nat (- i)) else digits_of (nat i))"

definition opt_to_string :: "string option \<Rightarrow> string" where
  \<comment> \<open>a possibly undefined string inside a template literal or given to the console\<close>
  "opt_to_string v = (case v of None \<Rightarrow> ''undefined'' | Some s \<Rightarrow> s)"

subsection \<open>The client address\<close>

text \<open>
  \<^verbatim>\<open>if (process.env.TRUST_PROXY === 'true') { app.set('trust proxy', 1); }\<close>: the
  setting is the number of trusted hops, or it is not set.
\<close>

definition trust_proxy :: "env \<Rightarrow> nat option" where
  "trust_proxy e = (if e ''TRUST_PROXY'' = Some ''true'' then Some 1 else None)"

definition trim_spaces :: "string \<Rightarrow> string" where
  "trim_spaces s =
     rev (dropWhile (\<lambda>c. c = CHR '' '') (rev (dropWhile (\<lambda>c. c = CHR '' '') s)))"

definition forwarded_addrs :: "string option \<Rightarrow> string list" where
  \<comment> \<open>the addresses listed in the forwarded-address header, separated by commas, from
      the last one (the one nearest to the socket) to the first; blanks around an address
      and empty entries are dropped\<close>
  "forwarded_addrs header =
     (case header of
        None \<Rightarrow> []
      | Some h \<Rightarrow> rev (filter (\<lambda>a. a \<noteq> []) (map trim_spaces (split_on CHR '','' h))))"

fun hop_addr :: "nat \<Rightarrow> 'a \<Rightarrow> 'a list \<Rightarrow> 'a" where
  \<comment> \<open>the address \<open>n\<close> hops before the first one of a chain, or the end of the chain\<close>
  "hop_addr 0 a rest = a"
| "hop_addr (Suc n) a [] = a"
| "hop_addr (Suc n) a (b # rest) = hop_addr n b rest"

definition req_ip :: "nat option \<Rightarrow> request \<Rightarrow> string option" where
  \<comment> \<open>The \<^verbatim>\<open>req.ip\<close> getter belongs to Express and is not part of the sources; this is
      what it returns for the setting made in app.js.  Without the setting it is the
      address of the socket.  With \<open>n\<close> trusted hops it is the address \<open>n\<close> hops before
      the socket in the chain that starts at the socket and goes on through the
      forwarded-address header from its last address to its first.\<close>
  "req_ip trust req =
     (case trust of
        None \<Rightarrow> req_remoteAddress req
      | Some hops \<Rightarrow>
          hop_addr hops (req_remoteAddress req)
            (map Some (forwarded_addrs (req_forwardedFor req))))"

definition keyGenerator :: "nat option \<Rightarrow> request \<Rightarrow> string" where
  \<comment> \<open>\<^verbatim>\<open>req.ip || req.socket.remoteAddress || 'unknown'\<close>\<close>
  "keyGenerator trust req =
     or_lit (or_str (req_ip trust req) (req_remoteAddress req)) ''unknown''"

subsection \<open>Limiter options and the rejection handler\<close>

record rl_options =
  windowMs :: int
  limit :: int
  message :: json

definition rateLimiter_options :: "env \<Rightarrow> rl_options" where
  "rateLimiter_options e =
     \<lparr> windowMs = parseIntWithDefault (e ''RATE_LIMIT_WINDOW_MS'') DEFAULT_WINDOW_MS,
       limit = parseIntWithDefault (e ''RATE_LIMIT_MAX'') DEFAULT_MAX_REQUESTS,
       message = JObj [(''status'', JNum 429), (''error'', JStr ''Too Many Requests''),
         (''message'', JStr ''You have exceeded the rate limit. Please try again later.'')] \<rparr>"

definition strictRateLimiter_options :: rl_options where
  "strictRateLimiter_options =
     \<lparr> windowMs = DEFAULT_WINDOW_MS,
       limit = DEFAULT_STRICT_MAX_REQUESTS,
       message = JObj [(''status'', JNum 429), (''error'', JStr ''Too Many Requests''),
         (''message'', JStr ''Too many authentication attempts, please try again later.'')] \<rparr>"

definition createRateLimiter_options ::
  "int option \<Rightarrow> int option \<Rightarrow> string option \<Rightarrow> rl_options" where
  \<comment> \<open>destructuring defaults apply to the properties that are undefined\<close>
  "createRateLimiter_options w l m =
     \<lparr> windowMs = (case w of None \<Rightarrow> DEFAULT_WINDOW_MS | Some x \<Rightarrow> x),
       limit = (case l of None \<Rightarrow> DEFAULT_MAX_REQUESTS | Some x \<Rightarrow> x),
       message = JObj [(''status'', JNum 429), (''error'', JStr ''Too Many Requests''),
         (''message'', JStr (case m of None \<Rightarrow> ''Too many requests, please try again later.''
                                     | Some x \<Rightarrow> x))] \<rparr>"

definition json_response :: "int \<Rightarrow> json \<Rightarrow> response" where
  \<comment> \<open>\<^verbatim>\<open>res.status(code).json(value)\<close>\<close>
  "json_response code v =
     \<lparr> res_status = code, res_type = ''application/json'', res_body = Json v \<rparr>"

definition limit_handler ::
  "string \<Rightarrow> string \<Rightarrow> nat option \<Rightarrow> request \<Rightarrow> rl_options \<Rightarrow> console \<times> response" where
  \<comment> \<open>The three \<^verbatim>\<open>handler\<close> options differ in the tag and in the tail of the logged
      line only.\<close>
  "limit_handler tag tail trust req options =
     (let clientIP = or_lit (or_str (req_ip trust req) (req_remoteAddress req)) ''unknown'';
          requestPath = or_lit (or_str (Some (req_originalUrl req)) (Some (req_url req))) ''/''
      in ([(LogWarn, tag @ '' - IP: '' @ clientIP @ '', Path: '' @ requestPath @ '', '' @
                     ''Limit: '' @ num_to_string (limit options) @
                     '', Window: '' @ num_to_string (windowMs options) @ ''ms'' @ tail)],
          json_response 429 (message options)))"

definition handler :: "nat option \<Rightarrow> request \<Rightarrow> rl_options \<Rightarrow> console \<times> response" where
  "handler = limit_handler ''[Rate Limit] Exceeded'' []"

definition strict_handler :: "nat option \<Rightarrow> request \<Rightarrow> rl_options \<Rightarrow> console \<times> response" where
  "strict_handler =
     limit_handler ''[Strict Rate Limit] EXCEEDED'' '' - Potential brute force attempt''"

definition custom_handler :: "nat option \<Rightarrow> request \<Rightarrow> rl_options \<Rightarrow> console \<times> response" where
  "custom_handler = limit_handler ''[Custom Rate Limit] Exceeded'' []"

subsection \<open>The window counter\<close>

record counter =
  count :: nat
  windowStart :: int

type_synonym store = "string \<rightharpoonup> counter"

definition hit :: "rl_options \<Rightarrow> int \<Rightarrow> string \<Rightarrow> store \<Rightarrow> store \<times> bool" where
  \<comment> \<open>Modelled from the spec: the counting is done by express-rate-limit, which is not part
      of the sources.  On each request, locate or create the client's counter record; if
      now - window_start \<ge> window_length, reset (count = 0, window_start = now); increment
      count; if count > max_requests, reject.\<close>
  "hit options now key st =
     (let c = (case st key of
                 None \<Rightarrow> \<lparr> count = 0, windowStart = now \<rparr>
               | Some c \<Rightarrow> if now - windowStart c \<ge> windowMs options
                           then \<lparr> count = 0, windowStart = now \<rparr> else c);
          c' = c \<lparr> count := count c + 1 \<rparr>
      in (st(key \<mapsto> c'), int (count c') > limit options))"

section \<open>app.js\<close>

text \<open>
  What is decided outside the application's own code while one request is served: the
  clock, the error the body parsers raise (if any), and the two values the health
  route reads from the runtime.
\<close>

record request_ctx =
  now_ms :: int
  body_failure :: "js_error option"
  iso_timestamp :: string
  uptime :: real

record app_state =
  as_store :: store
  as_console :: console

datatype stage_result = Next | Respond response | Raise js_error

definition rateLimiter :: "env \<Rightarrow> request_ctx \<Rightarrow> request \<Rightarrow> app_state \<Rightarrow> app_state \<times> stage_result" where
  \<comment> \<open>\<^verbatim>\<open>rateLimit({windowMs, limit, message, handler, keyGenerator, ...})\<close>: the counter is
      kept under the generated key, a request over the limit is given to the handler.\<close>
  "rateLimiter e ctx req s =
     (let options = rateLimiter_options e;
          trust = trust_proxy e;
          (st', over) = hit options (now_ms ctx) (keyGenerator trust req) (as_store s)
      in if over
         then (let (logs, res) = handler trust req options
               in (s \<lparr> as_store := st', as_console := as_console s @ logs \<rparr>, Respond res))
         else (s \<lparr> as_store := st' \<rparr>, Next))"

definition optionsSuccessStatus :: int where
  "optionsSuccessStatus = 204"

definition cors_stage :: "request \<Rightarrow> stage_result" where
  \<comment> \<open>Modelled from the spec: the cors package is not part of the sources.  A preflight
      (an OPTIONS request) is answered by this stage with the preflight success status;
      every other request goes on.\<close>
  "cors_stage req =
     (if req_method req = ''OPTIONS''
      then Respond \<lparr> res_status = optionsSuccessStatus, res_type = [], res_body = Empty \<rparr>
      else Next)"

definition isProduction :: "env \<Rightarrow> bool" where
  "isProduction e = (e ''NODE_ENV'' = Some ''production'')"

definition helloHandler :: response where
  \<comment> \<open>\<^verbatim>\<open>res.status(200).type('text/plain').send('Hello, World!\n')\<close>\<close>
  "helloHandler =
     \<lparr> res_status = 200, res_type = ''text/plain'',
       res_body = Text (''Hello, World!'' @ [CHR 0x0A]) \<rparr>"

definition healthHandler :: "request_ctx \<Rightarrow> response" where
  "healthHandler ctx =
     json_response 200 (JObj [(''status'', JStr ''healthy''),
       (''timestamp'', JStr (iso_timestamp ctx)), (''uptime'', JReal (uptime ctx))])"

definition notFoundHandler :: "request \<Rightarrow> response" where
  "notFoundHandler req =
     json_response 404 (JObj [(''status'', JNum 404), (''error'', JStr ''Not Found''),
       (''message'', JStr ''The requested resource could not be found''),
       (''path'', JStr (req_originalUrl req))])"

definition statusCode_of :: "js_error \<Rightarrow> int" where
  \<comment> \<open>\<^verbatim>\<open>err.status || err.statusCode || 500\<close>\<close>
  "statusCode_of err =
     (case err_status err of
        Some n \<Rightarrow> if n \<noteq> 0 then n
                  else (case err_statusCode err of
                          Some m \<Rightarrow> if m \<noteq> 0 then m else 500 | None \<Rightarrow> 500)
      | None \<Rightarrow> (case err_statusCode err of
                    Some m \<Rightarrow> if m \<noteq> 0 then m else 500 | None \<Rightarrow> 500))"

definition generic_message :: string where
  "generic_message = ''An unexpected error occurred''"

definition errorResponse :: "env \<Rightarrow> js_error \<Rightarrow> (string \<times> json) list" where
  "errorResponse e err =
     (let statusCode = statusCode_of err in
      [(''status'', JNum statusCode),
       (''error'', JStr (if statusCode = 500 then ''Internal Server Error'' else ''Error'')),
       (''message'', JStr (if isProduction e \<and> statusCode = 500 then generic_message
                           else or_lit (err_message err) generic_message))]
      @ (case err_stack err of
           Some st \<Rightarrow> if \<not> isProduction e \<and> st \<noteq> [] then [(''stack'', JStr st)] else []
         | None \<Rightarrow> []))"

definition invalid_status_code :: "int \<Rightarrow> js_error" where
  \<comment> \<open>what the platform throws when a response is written with a status code that is not
      in the range 100 to 999\<close>
  "invalid_status_code code =
     \<lparr> err_message = Some (''Invalid status code: '' @ num_to_string code),
       err_status = None, err_statusCode = None,
       err_stack = Some (''RangeError [ERR_HTTP_INVALID_STATUS_CODE]: Invalid status code: '' @
                         num_to_string code),
       err_code = Some ''ERR_HTTP_INVALID_STATUS_CODE'' \<rparr>"

definition errorHandler :: "env \<Rightarrow> js_error \<Rightarrow> console \<times> (js_error + response)" where
  \<comment> \<open>The two lines are logged first.  \<^verbatim>\<open>res.status(statusCode).json(errorResponse)\<close>
      throws when the status code is not one the platform can send.\<close>
  "errorHandler e err =
     ([(LogError, ''[Error] '' @ opt_to_string (err_message err)),
       (LogError, opt_to_string (err_stack err))],
      if 100 \<le> statusCode_of err \<and> statusCode_of err \<le> 999
      then Inr (json_response (statusCode_of err) (JObj (errorResponse e err)))
      else Inl (invalid_status_code (statusCode_of err)))"

definition finalHandler :: "js_error \<Rightarrow> response" where
  \<comment> \<open>An error thrown by the error handler itself goes to the default error handler of
      Express, which is not part of the sources: it answers 500 with an HTML page.\<close>
  "finalHandler thrown = \<lparr> res_status = 500, res_type = ''text/html'', res_body = ErrorPage \<rparr>"

definition handle_error :: "env \<Rightarrow> js_error \<Rightarrow> app_state \<Rightarrow> app_state \<times> response" where
  \<comment> \<open>\<^verbatim>\<open>next(err)\<close>: the error skips to the error handler\<close>
  "handle_error e err s =
     (let (logs, result) = errorHandler e err
      in (s \<lparr> as_console := as_console s @ logs \<rparr>,
          case result of Inr r \<Rightarrow> r | Inl thrown \<Rightarrow> finalHandler thrown))"

definition route_get :: "(string \<Rightarrow> string \<Rightarrow> bool) \<Rightarrow> string \<Rightarrow> request \<Rightarrow> bool" where
  \<comment> \<open>\<^verbatim>\<open>app.get(pattern, ...)\<close>: the router's path matcher is a parameter; a GET route
      also serves HEAD.\<close>
  "route_get matches pattern req =
     ((req_method req = ''GET'' \<or> req_method req = ''HEAD'') \<and> matches pattern (req_path req))"

definition routes :: "(string \<Rightarrow> string \<Rightarrow> bool) \<Rightarrow> request_ctx \<Rightarrow> request \<Rightarrow> response" where
  \<comment> \<open>the two routes, then the 404 handler, in registration order\<close>
  "routes matches ctx req =
     (if route_get matches ''/'' req then helloHandler
      else if route_get matches ''/health'' req then healthHandler ctx
      else notFoundHandler req)"

definition app ::
  "(string \<Rightarrow> string \<Rightarrow> bool) \<Rightarrow> env \<Rightarrow> request_ctx \<Rightarrow> request \<Rightarrow> app_state
     \<Rightarrow> app_state \<times> response" where
  \<comment> \<open>rate limiter, helmet (headers only), cors, body parsers, routes, 404 handler,
      error handler\<close>
  "app matches e ctx req s =
     (case rateLimiter e ctx req s of
        (s1, Respond r) \<Rightarrow> (s1, r)
      | (s1, Raise err) \<Rightarrow> handle_error e err s1
      | (s1, Next) \<Rightarrow>
          (case cors_stage req of
             Respond r \<Rightarrow> (s1, r)
           | Raise err \<Rightarrow> handle_error e err s1
           | Next \<Rightarrow>
               (case body_failure ctx of
                  Some err \<Rightarrow> handle_error e err s1
                | None \<Rightarrow> (s1, routes matches ctx req))))"

fun serve ::
  "(string \<Rightarrow> string \<Rightarrow> bool) \<Rightarrow> env \<Rightarrow> (request_ctx \<times> request) list \<Rightarrow> app_state
     \<Rightarrow> app_state \<times> response list" where
  \<comment> \<open>requests are served one after the other on the event loop\<close>
  "serve matches e [] s = (s, [])"
| "serve matches e ((ctx, req) # rest) s =
     (let (s1, r) = app matches e ctx req s;
          (s2, rs) = serve matches e rest s1
      in (s2, r # rs))"

section \<open>config/security.js\<close>

definition DEFAULT_ORIGINS :: "string list" where
  "DEFAULT_ORIGINS = [''http://localhost:3000'', ''http://localhost:8080'']"

definition parseAllowedOrigins :: "env \<Rightarrow> string list" where
  \<comment> \<open>\<^verbatim>\<open>if (process.env.ALLOWED_ORIGINS)\<close>: an unset variable and the empty string are
      falsy.\<close>
  "parseAllowedOrigins e =
     (case e ''ALLOWED_ORIGINS'' of
        None \<Rightarrow> DEFAULT_ORIGINS
      | Some v \<Rightarrow>
          if v = [] then DEFAULT_ORIGINS
          else filter (\<lambda>origin. length origin > 0) (map js_trim (split_on CHR '','' v)))"

definition origin_allowed :: "string list \<Rightarrow> string \<Rightarrow> bool" where
  \<comment> \<open>Modelled from the spec: the check is made by the cors package, which is not part of
      the sources.  An origin is allowed only if it is present in the configured
      whitelist.\<close>
  "origin_allowed whitelist origin = (origin \<in> set whitelist)"

section \<open>config/https.js\<close>

text \<open>
  The process as the server modules see it: the console, the file-system calls made so
  far, the two listeners, the exit code once \<^verbatim>\<open>process.exit\<close> has been called, and the
  bookkeeping of a shutdown in progress (the flags of \<^verbatim>\<open>gracefulShutdown\<close>, the close
  callbacks that are registered, the timer with its delay in milliseconds and the line
  its callback logs).
\<close>

datatype fs_node = Missing | File string | Unreadable string string

datatype fs_op = ExistsSync string | ReadFileSync string

record world =
  fs :: "string \<Rightarrow> fs_node"
  resolve :: "string \<Rightarrow> string"
  tls_reject :: "string \<Rightarrow> string \<Rightarrow> js_error option"

record https_server =
  srv_port :: int
  srv_key :: string
  srv_cert :: string
  srv_minVersion :: string

datatype callback = HttpCloseCallback | HttpsCloseCallback | HttpClosedThenHttps | HttpsClosedExit

record process =
  p_console :: console
  p_fs_ops :: "fs_op list"
  http_open :: bool
  httpsServer :: "https_server option"
  https_open :: bool
  exit_code :: "int option"
  httpClosed :: bool
  httpsClosed :: bool
  http_cb :: "callback option"
  https_cb :: "callback option"
  timer :: "(nat \<times> string) option"

definition boot :: process where
  "boot =
     \<lparr> p_console = [], p_fs_ops = [], http_open = False, httpsServer = None, https_open = False,
       exit_code = None, httpClosed = False, httpsClosed = False, http_cb = None,
       https_cb = None, timer = None \<rparr>"

definition console_line :: "level \<Rightarrow> string \<Rightarrow> process \<Rightarrow> process" where
  "console_line l s p = p \<lparr> p_console := p_console p @ [(l, s)] \<rparr>"

definition mk_error :: "string \<Rightarrow> js_error" where
  \<comment> \<open>\<^verbatim>\<open>new Error(msg)\<close>; of the stack only the first line is kept\<close>
  "mk_error msg =
     \<lparr> err_message = Some msg, err_status = None, err_statusCode = None,
       err_stack = Some (''Error: '' @ msg), err_code = None \<rparr>"

definition fs_error :: "string \<Rightarrow> string \<Rightarrow> js_error" where
  "fs_error code msg = (mk_error msg) \<lparr> err_code := Some code \<rparr>"

definition existsSync :: "world \<Rightarrow> string \<Rightarrow> process \<Rightarrow> bool \<times> process" where
  "existsSync w path p = (fs w path \<noteq> Missing, p \<lparr> p_fs_ops := p_fs_ops p @ [ExistsSync path] \<rparr>)"

definition readFileSync :: "world \<Rightarrow> string \<Rightarrow> process \<Rightarrow> (js_error + string) \<times> process" where
  "readFileSync w path p =
     (case fs w path of
        File content \<Rightarrow> Inr content
      | Unreadable code msg \<Rightarrow> Inl (fs_error code msg)
      | Missing \<Rightarrow> Inl (fs_error ''ENOENT'' (''ENOENT: no such file or directory, open '' @ path)),
      p \<lparr> p_fs_ops := p_fs_ops p @ [ReadFileSync path] \<rparr>)"

fun is_prefix :: "string \<Rightarrow> string \<Rightarrow> bool" where
  "is_prefix [] ys = True"
| "is_prefix (x # xs) [] = False"
| "is_prefix (x # xs) (y # ys) = (x = y \<and> is_prefix xs ys)"

fun js_includes :: "string \<Rightarrow> string \<Rightarrow> bool" where
  \<comment> \<open>\<^verbatim>\<open>hay.includes(needle)\<close>\<close>
  "js_includes [] needle = (needle = [])"
| "js_includes (x # xs) needle = (is_prefix needle (x # xs) \<or> js_includes xs needle)"

definition DEFAULT_KEY_PATH :: string where
  "DEFAULT_KEY_PATH = ''./certs/server.key''"

definition DEFAULT_CERT_PATH :: string where
  "DEFAULT_CERT_PATH = ''./certs/server.cert''"

definition DEFAULT_HTTPS_PORT :: int where
  "DEFAULT_HTTPS_PORT = 443"

definition MIN_TLS_VERSION :: string where
  "MIN_TLS_VERSION = ''TLSv1.2''"

definition keyPath :: "env \<Rightarrow> string" where
  "keyPath e = or_lit (e ''SSL_KEY_PATH'') DEFAULT_KEY_PATH"

definition certPath :: "env \<Rightarrow> string" where
  "certPath e = or_lit (e ''SSL_CERT_PATH'') DEFAULT_CERT_PATH"

definition loadCertificates_try ::
  "env \<Rightarrow> world \<Rightarrow> process \<Rightarrow> (js_error + string \<times> string) \<times> process" where
  \<comment> \<open>the body of the \<^verbatim>\<open>try\<close> block\<close>
  "loadCertificates_try e w p =
     (let resolvedKeyPath = resolve w (keyPath e);
          resolvedCertPath = resolve w (certPath e);
          (keyExists, p1) = existsSync w resolvedKeyPath p
      in if \<not> keyExists
         then (Inl (mk_error (''SSL private key file not found. '' @
                 ''Please ensure the file exists at the configured path. '' @
                 ''Set SSL_KEY_PATH environment variable or place key at '' @
                 DEFAULT_KEY_PATH)), p1)
         else (let (certExists, p2) = existsSync w resolvedCertPath p1
               in if \<not> certExists
                  then (Inl (mk_error (''SSL certificate file not found. '' @
                          ''Please ensure the file exists at the configured path. '' @
                          ''Set SSL_CERT_PATH environment variable or place certificate at '' @
                          DEFAULT_CERT_PATH)), p2)
                  else (case readFileSync w resolvedKeyPath p2 of
                          (Inl error, p3) \<Rightarrow> (Inl error, p3)
                        | (Inr key, p3) \<Rightarrow>
                            (case readFileSync w resolvedCertPath p3 of
                               (Inl error, p4) \<Rightarrow> (Inl error, p4)
                             | (Inr cert, p4) \<Rightarrow>
                                 if length key = 0
                                 then (Inl (mk_error ''SSL private key file is empty''), p4)
                                 else if length cert = 0
                                 then (Inl (mk_error ''SSL certificate file is empty''), p4)
                                 else (Inr (key, cert), p4)))))"

definition loadCertificates_catch :: "js_error \<Rightarrow> js_error" where
  \<comment> \<open>the \<^verbatim>\<open>catch\<close> block: what it throws.  Reading \<^verbatim>\<open>includes\<close> of a message that is
      undefined is a TypeError.\<close>
  "loadCertificates_catch error =
     (case err_message error of
        None \<Rightarrow> mk_error ''Cannot read properties of undefined (reading 'includes')''
      | Some m \<Rightarrow>
          if js_includes m ''SSL '' then error
          else mk_error (''Failed to load SSL certificates: '' @
            (if err_code error = Some ''ENOENT''
             then ''Certificate file not found. Please check SSL_KEY_PATH and SSL_CERT_PATH environment variables.''
             else if err_code error = Some ''EACCES''
             then ''Permission denied when reading certificate files. Please check file permissions.''
             else if err_code error = Some ''EISDIR''
             then ''Certificate path points to a directory instead of a file.''
             else m)))"

definition loadCertificates ::
  "env \<Rightarrow> world \<Rightarrow> process \<Rightarrow> (js_error + string \<times> string) \<times> process" where
  "loadCertificates e w p =
     (case loadCertificates_try e w p of
        (Inl error, p') \<Rightarrow> (Inl (loadCertificates_catch error), p')
      | (Inr certificates, p') \<Rightarrow> (Inr certificates, p'))"

record https_options =
  opt_key :: string
  opt_cert :: string
  opt_minVersion :: string

definition getHttpsOptions ::
  "env \<Rightarrow> world \<Rightarrow> process \<Rightarrow> (js_error + https_options) \<times> process" where
  "getHttpsOptions e w p =
     (case loadCertificates e w p of
        (Inl error, p') \<Rightarrow> (Inl error, p')
      | (Inr (key, cert), p') \<Rightarrow>
          (Inr \<lparr> opt_key = key, opt_cert = cert, opt_minVersion = MIN_TLS_VERSION \<rparr>, p'))"

datatype js_port = PortStr string | PortNum int

definition port_to_string :: "js_port \<Rightarrow> string" where
  "port_to_string port = (case port of PortStr s \<Rightarrow> s | PortNum n \<Rightarrow> num_to_string n)"

definition invalid_port :: "js_port \<Rightarrow> js_error" where
  "invalid_port port =
     mk_error (''Invalid port number: '' @ port_to_string port @
               ''. Port must be between 0 and 65535.'')"

definition createSecureServer ::
  "env \<Rightarrow> world \<Rightarrow> js_port option \<Rightarrow> process \<Rightarrow> (js_error + https_server) \<times> process" where
  \<comment> \<open>The callbacks given to \<^verbatim>\<open>server.on\<close> and \<^verbatim>\<open>server.listen\<close> run later, on events
      of the listener; none of them throws or ends the process.\<close>
  "createSecureServer e w port_arg p =
     (let port = (case port_arg of None \<Rightarrow> PortNum DEFAULT_HTTPS_PORT | Some x \<Rightarrow> x)
      in case parseInt (port_to_string port) of
           None \<Rightarrow> (Inl (invalid_port port), p)
         | Some portNumber \<Rightarrow>
             if portNumber < 0 \<or> portNumber > 65535 then (Inl (invalid_port port), p)
             else (case getHttpsOptions e w (console_line LogInfo ''Initializing HTTPS server...'' p) of
                     (Inl error, p') \<Rightarrow>
                       (Inl error,
                        console_line LogError (''Failed to create HTTPS server: '' @
                                      opt_to_string (err_message error)) p')
                   | (Inr httpsOptions, p') \<Rightarrow>
                       (case tls_reject w (opt_key httpsOptions) (opt_cert httpsOptions) of
                          Some error \<Rightarrow>
                            (Inl error,
                             console_line LogError (''Failed to create HTTPS server: '' @
                                           opt_to_string (err_message error)) p')
                        | None \<Rightarrow>
                            (Inr \<lparr> srv_port = portNumber, srv_key = opt_key httpsOptions,
                                   srv_cert = opt_cert httpsOptions,
                                   srv_minVersion = opt_minVersion httpsOptions \<rparr>, p'))))"

section \<open>server.js\<close>

definition env_port :: "env \<Rightarrow> string \<Rightarrow> int \<Rightarrow> js_port" where
  \<comment> \<open>\<^verbatim>\<open>process.env.NAME || default\<close>\<close>
  "env_port e name d =
     (case e name of None \<Rightarrow> PortNum d | Some s \<Rightarrow> if s = [] then PortNum d else PortStr s)"

definition PORT :: "env \<Rightarrow> js_port" where
  "PORT e = env_port e ''PORT'' 3000"

definition HTTPS_PORT :: "env \<Rightarrow> js_port" where
  "HTTPS_PORT e = env_port e ''HTTPS_PORT'' 443"

definition ENABLE_HTTPS :: "env \<Rightarrow> bool" where
  "ENABLE_HTTPS e = (e ''ENABLE_HTTPS'' = Some ''true'')"

definition start_http :: "env \<Rightarrow> process \<Rightarrow> process" where
  \<comment> \<open>\<^verbatim>\<open>const httpServer = app.listen(PORT, ...)\<close>; the callback logs once the listener
      is bound.\<close>
  "start_http e p = p \<lparr> http_open := True \<rparr>"

definition https_started_lines :: "env \<Rightarrow> console" where
  "https_started_lines e =
     [(LogInfo, ''HTTPS Server running on port '' @ port_to_string (HTTPS_PORT e)),
      (LogInfo, ''TLS encryption enabled with minimum TLS 1.2'')]
     @ (if e ''NODE_ENV'' \<noteq> Some ''production''
        then [(LogInfo, ''Secure access: https://localhost:'' @ port_to_string (HTTPS_PORT e) @ ''/''),
              (LogInfo, ''Note: Browser may show certificate warning for self-signed certs'')]
        else [])"

definition https_failure_lines :: "js_error \<Rightarrow> console" where
  "https_failure_lines error =
     [(LogError, ''Failed to start HTTPS server: '' @ opt_to_string (err_message error)),
      (LogError, []),
      (LogError, ''Troubleshooting steps:''),
      (LogError, ''1. Ensure SSL certificate files exist at configured paths''),
      (LogError, ''2. Verify SSL_KEY_PATH and SSL_CERT_PATH environment variables''),
      (LogError, ''3. Check file permissions on certificate files''),
      (LogError, ''4. For development, generate self-signed certificates''),
      (LogError, []),
      (LogError, ''HTTP server will continue running without HTTPS.''),
      (LogError, ''Set ENABLE_HTTPS=false to suppress this message.'')]"

definition start_https :: "env \<Rightarrow> world \<Rightarrow> process \<Rightarrow> process" where
  \<comment> \<open>\<^verbatim>\<open>let httpsServer = null; if (ENABLE_HTTPS) { try { ... } catch (error) { ... } }
      else { ... }\<close>\<close>
  "start_https e w p =
     (if ENABLE_HTTPS e
      then (case createSecureServer e w (Some (HTTPS_PORT e)) p of
              (Inr server, p') \<Rightarrow>
                p' \<lparr> httpsServer := Some server, https_open := True,
                      p_console := p_console p' @ https_started_lines e \<rparr>
            | (Inl error, p') \<Rightarrow>
                p' \<lparr> p_console := p_console p' @ https_failure_lines error \<rparr>)
      else console_line LogInfo ''HTTPS disabled. Set ENABLE_HTTPS=true to enable secure server.'' p)"

definition server_main :: "env \<Rightarrow> world \<Rightarrow> process" where
  \<comment> \<open>the module body up to the registration of the signal handlers; the start-up
      summary that follows only writes to the console\<close>
  "server_main e w = start_https e w (start_http e boot)"

subsection \<open>Shutdown\<close>

definition exit :: "int \<Rightarrow> process \<Rightarrow> process" where
  \<comment> \<open>\<^verbatim>\<open>process.exit(code)\<close>\<close>
  "exit code p = p \<lparr> exit_code := Some code \<rparr>"

definition close_http :: "callback \<Rightarrow> process \<Rightarrow> process" where
  \<comment> \<open>\<^verbatim>\<open>httpServer.close(cb)\<close>: the listener stops accepting connections at once; the
      callback runs when the listener has closed.\<close>
  "close_http cb p = p \<lparr> http_open := False, http_cb := Some cb \<rparr>"

definition close_https :: "callback \<Rightarrow> process \<Rightarrow> process" where
  "close_https cb p = p \<lparr> https_open := False, https_cb := Some cb \<rparr>"

definition SHUTDOWN_TIMEOUT :: nat where
  "SHUTDOWN_TIMEOUT = 10000"

definition checkAndExit :: "process \<Rightarrow> process" where
  "checkAndExit p =
     (if httpClosed p \<and> httpsClosed p
      then exit 0 (console_line LogInfo ''Graceful shutdown complete.''
                    (console_line LogInfo ''All servers closed successfully.'' p))
      else p)"

definition gracefulShutdown :: "string \<Rightarrow> process \<Rightarrow> process" where
  "gracefulShutdown signal p =
     (let p1 = console_line LogInfo ([CHR 0x0A] @ signal @ '' received. Starting graceful shutdown...'') p;
          p2 = p1 \<lparr> httpClosed := False, httpsClosed := (httpsServer p1 = None) \<rparr>;
          p3 = close_http HttpCloseCallback (console_line LogInfo ''Closing HTTP server...'' p2);
          p4 = (if httpsServer p3 \<noteq> None
                then close_https HttpsCloseCallback (console_line LogInfo ''Closing HTTPS server...'' p3)
                else p3)
      in p4 \<lparr> timer := Some (SHUTDOWN_TIMEOUT,
             ''Could not close connections in time, forcefully shutting down'') \<rparr>)"

definition gracefulShutdown_part000 :: "string \<Rightarrow> process \<Rightarrow> process" where
  \<comment> \<open>the \<^verbatim>\<open>gracefulShutdown\<close> of the second server module (unnamed part 000)\<close>
  "gracefulShutdown_part000 signal p =
     (let p1 = console_line LogInfo ([CHR 0x0A] @ ''Received '' @ signal @ ''. Starting graceful shutdown...'') p;
          p2 = close_http HttpClosedThenHttps p1
      in p2 \<lparr> timer := Some (10000, ''Forced shutdown after timeout'') \<rparr>)"

definition run_callback :: "callback \<Rightarrow> js_error option \<Rightarrow> process \<Rightarrow> process" where
  "run_callback cb err p =
     (case cb of
        HttpCloseCallback \<Rightarrow>
          checkAndExit
            ((case err of
                Some error \<Rightarrow> console_line LogError (''Error closing HTTP server: '' @
                                             opt_to_string (err_message error)) p
              | None \<Rightarrow> console_line LogInfo ''HTTP server closed.'' p) \<lparr> httpClosed := True \<rparr>)
      | HttpsCloseCallback \<Rightarrow>
          checkAndExit
            ((case err of
                Some error \<Rightarrow> console_line LogError (''Error closing HTTPS server: '' @
                                             opt_to_string (err_message error)) p
              | None \<Rightarrow> console_line LogInfo ''HTTPS server closed.'' p) \<lparr> httpsClosed := True \<rparr>)
      | HttpClosedThenHttps \<Rightarrow>
          (let p1 = console_line LogInfo ''HTTP Server closed'' p
           in if httpsServer p1 \<noteq> None then close_https HttpsClosedExit p1 else exit 0 p1)
      | HttpsClosedExit \<Rightarrow> exit 0 (console_line LogInfo ''HTTPS Server closed'' p))"

definition on_timeout :: "string \<Rightarrow> process \<Rightarrow> process" where
  \<comment> \<open>the callback given to \<^verbatim>\<open>setTimeout\<close>: both modules force the exit with code 1 and
      differ in the line they write\<close>
  "on_timeout line p = exit 1 (console_line LogError line p)"

text \<open>
  What happens after the signal, as events of the event loop: a listener reports that it
  has closed (with an error or without), or the timer fires.  Nothing runs once the
  process has exited, a close callback runs once, and only if it is registered.
\<close>

datatype event = HttpClosed "js_error option" | HttpsClosed "js_error option" | Timeout

definition step :: "event \<Rightarrow> process \<Rightarrow> process" where
  "step ev p =
     (if exit_code p \<noteq> None then p
      else (case ev of
              HttpClosed err \<Rightarrow>
                (case http_cb p of
                   Some cb \<Rightarrow> run_callback cb err (p \<lparr> http_cb := None \<rparr>) | None \<Rightarrow> p)
            | HttpsClosed err \<Rightarrow>
                (case https_cb p of
                   Some cb \<Rightarrow> run_callback cb err (p \<lparr> https_cb := None \<rparr>) | None \<Rightarrow> p)
            | Timeout \<Rightarrow>
                (case timer p of
                   Some (delay, line) \<Rightarrow> on_timeout line (p \<lparr> timer := None \<rparr>) | None \<Rightarrow> p)))"

fun run :: "event list \<Rightarrow> process \<Rightarrow> process" where
  "run [] p = p"
| "run (ev # evs) p = run evs (step ev p)"

section \<open>Example inputs\<close>

definition exact_match :: "string \<Rightarrow> string \<Rightarrow> bool" where
  "exact_match pattern path = (pattern = path)"

definition example_ctx :: request_ctx where
  "example_ctx =
     \<lparr> now_ms = 0, body_failure = None, iso_timestamp = ''1970-01-01T00:00:00.000Z'',
       uptime = 0 \<rparr>"

definition get_root :: request where
  "get_root =
     \<lparr> req_method = ''GET'', req_path = ''/'', req_originalUrl = ''/'', req_url = ''/'',
       req_forwardedFor = None, req_remoteAddress = Some ''10.0.0.7'' \<rparr>"

definition get_missing :: request where
  "get_missing =
     \<lparr> req_method = ''GET'', req_path = ''/does-not-exist'',
       req_originalUrl = ''/does-not-exist'', req_url = ''/does-not-exist'',
       req_forwardedFor = None, req_remoteAddress = Some ''10.0.0.7'' \<rparr>"

definition proxied_request :: request where
  "proxied_request =
     \<lparr> req_method = ''GET'', req_path = ''/'', req_originalUrl = ''/'', req_url = ''/'',
       req_forwardedFor = Some ''203.0.113.9'', req_remoteAddress = Some ''10.0.0.7'' \<rparr>"

definition two_hop_request :: request where
  "two_hop_request =
     \<lparr> req_method = ''GET'', req_path = ''/'', req_originalUrl = ''/'', req_url = ''/'',
       req_forwardedFor = Some ''198.51.100.1, 203.0.113.9'',
       req_remoteAddress = Some ''10.0.0.7'' \<rparr>"

definition err_bad_status :: js_error where
  "err_bad_status =
     \<lparr> err_message = Some ''odd'', err_status = Some (- 1), err_statusCode = None,
       err_stack = None, err_code = None \<rparr>"

definition initial_state :: app_state where
  "initial_state = \<lparr> as_store = Map.empty, as_console = [] \<rparr>"

definition one_hit_state :: app_state where
  "one_hit_state =
     \<lparr> as_store = [''10.0.0.7'' \<mapsto> \<lparr> count = 1, windowStart = 0 \<rparr>], as_console = [] \<rparr>"

definition env_limit_one :: env where
  "env_limit_one = [''RATE_LIMIT_MAX'' \<mapsto> ''1'']"

definition env_trusting :: env where
  "env_trusting = [''TRUST_PROXY'' \<mapsto> ''true'']"

definition err_empty_message :: js_error where
  \<comment> \<open>\<^verbatim>\<open>Object.assign(new Error(), {status: 400})\<close>\<close>
  "err_empty_message =
     \<lparr> err_message = Some [], err_status = Some 400, err_statusCode = None,
       err_stack = None, err_code = None \<rparr>"

definition err_teapot :: js_error where
  "err_teapot =
     \<lparr> err_message = Some ''short and stout'', err_status = Some 418, err_statusCode = None,
       err_stack = Some ''Error: short and stout'', err_code = None \<rparr>"

definition err_status_code_only :: js_error where
  "err_status_code_only =
     \<lparr> err_message = Some ''payload too large'', err_status = None, err_statusCode = Some 413,
       err_stack = None, err_code = None \<rparr>"

definition err_plain :: js_error where
  "err_plain =
     \<lparr> err_message = Some ''boom'', err_status = None, err_statusCode = None,
       err_stack = Some ''Error: boom'', err_code = None \<rparr>"

definition env_production :: env where
  "env_production = [''NODE_ENV'' \<mapsto> ''production'']"

definition env_blank_origins :: env where
  "env_blank_origins = [''ALLOWED_ORIGINS'' \<mapsto> '' , ,'']"

definition env_two_origins :: env where
  "env_two_origins = [''ALLOWED_ORIGINS'' \<mapsto> '' https://a.example , https://b.example,'']"

definition listeners :: "process \<Rightarrow> bool \<times> https_server option \<times> bool \<times> int option" where
  \<comment> \<open>the part of the process that console output and file-system calls leave alone\<close>
  "listeners p = (http_open p, httpsServer p, https_open p, exit_code p)"

definition file_unusable :: "world \<Rightarrow> string \<Rightarrow> bool" where
  \<comment> \<open>a certificate file that is missing, unreadable or empty\<close>
  "file_unusable w path =
     (case fs w path of Missing \<Rightarrow> True | Unreadable code msg \<Rightarrow> True | File content \<Rightarrow> content = [])"

definition world_without_certs :: world where
  "world_without_certs =
     \<lparr> fs = (\<lambda>path. Missing), resolve = (\<lambda>path. ''/srv/app/'' @ path),
       tls_reject = (\<lambda>key cert. None) \<rparr>"

definition world_with_certs :: world where
  "world_with_certs =
     \<lparr> fs = (\<lambda>path. if path = ''/srv/app/./certs/server.key'' then File ''KEY''
                    else if path = ''/srv/app/./certs/server.cert'' then File ''CERT''
                    else Missing),
       resolve = (\<lambda>path. ''/srv/app/'' @ path),
       tls_reject = (\<lambda>key cert. None) \<rparr>"

definition env_https :: env where
  "env_https = [''ENABLE_HTTPS'' \<mapsto> ''true'', ''HTTPS_PORT'' \<mapsto> ''8443'']"

definition running :: "process \<Rightarrow> bool" where
  \<comment> \<open>a process that has not exited and has no shutdown in progress\<close>
  "running p =
     (exit_code p = None \<and> http_cb p = None \<and> https_cb p = None \<and> timer p = None)"

definition shutting_down :: "bool \<Rightarrow> bool \<Rightarrow> process \<Rightarrow> bool" where
  \<comment> \<open>the states of a shutdown started by \<open>gracefulShutdown\<close> before the exit: which of the
      two flags are set, with the callbacks of the listeners that have not reported yet\<close>
  "shutting_down a b p =
     (exit_code p = None \<and> \<not> (a \<and> b) \<and> timer p \<noteq> None
      \<and> httpClosed p = a \<and> httpsClosed p = b
      \<and> http_cb p = (if a then None else Some HttpCloseCallback)
      \<and> https_cb p = (if b then None else Some HttpsCloseCallback))"

fun http_reported :: "event list \<Rightarrow> bool" where
  \<comment> \<open>the HTTP listener has reported that it closed\<close>
  "http_reported [] = False"
| "http_reported (HttpClosed err # evs) = True"
| "http_reported (ev # evs) = http_reported evs"

fun https_reported :: "event list \<Rightarrow> bool" where
  "https_reported [] = False"
| "https_reported (HttpsClosed err # evs) = True"
| "https_reported (ev # evs) = https_reported evs"

definition example_server :: https_server where
  "example_server =
     \<lparr> srv_port = 8443, srv_key = ''KEY'', srv_cert = ''CERT'', srv_minVersion = ''TLSv1.2'' \<rparr>"

definition both_listening :: process where
  "both_listening =
     boot \<lparr> http_open := True, httpsServer := Some example_server, https_open := True \<rparr>"

section \<open>Properties\<close>

lemma parseIntWithDefault_positive:
  "0 < d \<Longrightarrow> 0 < parseIntWithDefault v d"
  by (simp add: parseIntWithDefault_def split: option.splits)

subsection \<open>Configuration of the limiter\<close>

lemma parseIntWithDefault_missing:
  "parseIntWithDefault None d = d" "parseIntWithDefault (Some []) d = d"
  by (simp_all add: parseIntWithDefault_def)

lemma parseIntWithDefault_cases:
  "parseIntWithDefault v d = d \<or> (\<exists>s p. v = Some s \<and> parseInt s = Some p \<and> 0 < p \<and> parseIntWithDefault v d = p)"
  by (auto simp add: parseIntWithDefault_def split: option.splits)

lemma parseIntWithDefault_fallback:
  "parseInt s = None \<Longrightarrow> parseIntWithDefault (Some s) d = d"
  "parseInt s = Some p \<Longrightarrow> p \<le> 0 \<Longrightarrow> parseIntWithDefault (Some s) d = d"
  by (simp_all add: parseIntWithDefault_def)

lemma rateLimiter_options_positive:
  "0 < windowMs (rateLimiter_options e) \<and> 0 < limit (rateLimiter_options e)"
  by (simp add: rateLimiter_options_def parseIntWithDefault_positive DEFAULT_WINDOW_MS_def
      DEFAULT_MAX_REQUESTS_def)

lemma rateLimiter_options_default:
  "e ''RATE_LIMIT_WINDOW_MS'' \<in> {None, Some []} \<Longrightarrow> windowMs (rateLimiter_options e) = 900000"
  "e ''RATE_LIMIT_MAX'' \<in> {None, Some []} \<Longrightarrow> limit (rateLimiter_options e) = 100"
  by (auto simp add: rateLimiter_options_def parseIntWithDefault_def DEFAULT_WINDOW_MS_def
      DEFAULT_MAX_REQUESTS_def)

text \<open>
  C1.  The window length and the maximum count are positive integers, and a missing,
  empty, non-numeric or non-positive value of \<^verbatim>\<open>RATE_LIMIT_WINDOW_MS\<close> or
  \<^verbatim>\<open>RATE_LIMIT_MAX\<close> falls back to the default, with no partial application of an
  invalid value; \<^verbatim>\<open>parseIntWithDefault\<close> is documented to return the default for a
  value that is "not a valid number".  The lemmas above give the positive part.  The
  code hands the value to \<^verbatim>\<open>parseInt\<close>, which accepts any string that begins with
  digits, so the last part fails: with \<^verbatim>\<open>RATE_LIMIT_MAX=12abc\<close> the limit is 12, not
  100, and with \<^verbatim>\<open>RATE_LIMIT_WINDOW_MS=1e3\<close> the window is 1 ms, not 900000.
\<close>

theorem rate_limit_max_partial_application:
  "limit (rateLimiter_options [''RATE_LIMIT_MAX'' \<mapsto> ''12abc'']) = 12
   \<and> windowMs (rateLimiter_options [''RATE_LIMIT_WINDOW_MS'' \<mapsto> ''1e3'']) = 1"
  by (simp add: rateLimiter_options_def parseIntWithDefault_def parseInt_def
      js_whitespace_def is_digit_def digits_value_def digit_val_def)

subsection \<open>Rejected requests\<close>

lemma handler_result:
  "handler trust req options =
     ([(LogWarn, ''[Rate Limit] Exceeded - IP: '' @ keyGenerator trust req @ '', Path: '' @
          or_lit (or_str (Some (req_originalUrl req)) (Some (req_url req))) ''/'' @
          '', Limit: '' @ num_to_string (limit options) @
          '', Window: '' @ num_to_string (windowMs options) @ ''ms'')],
      json_response 429 (message options))"
  by (simp add: handler_def limit_handler_def keyGenerator_def)

lemma rateLimiter_reject:
  assumes "hit (rateLimiter_options e) (now_ms ctx) (keyGenerator (trust_proxy e) req) (as_store s) = (st', True)"
  shows "rateLimiter e ctx req s =
     (s \<lparr> as_store := st', as_console := as_console s @ fst (handler (trust_proxy e) req (rateLimiter_options e)) \<rparr>,
      Respond (snd (handler (trust_proxy e) req (rateLimiter_options e))))"
  using assms by (simp add: rateLimiter_def Let_def split: prod.splits)

lemma rateLimiter_admit:
  assumes "hit (rateLimiter_options e) (now_ms ctx) (keyGenerator (trust_proxy e) req) (as_store s) = (st', False)"
  shows "rateLimiter e ctx req s = (s \<lparr> as_store := st' \<rparr>, Next)"
  using assms by (simp add: rateLimiter_def Let_def split: prod.splits)

text \<open>
  C2.  A request that the limiter rejects is answered by the application with status 429
  and the JSON body \<open>{status: 429, error: "Too Many Requests", message: <string>}\<close>; no
  later stage runs.  One line is written with \<^verbatim>\<open>console.warn\<close>: it carries the client
  identifier, the request path, the configured limit and the configured window.
\<close>

theorem rate_limit_rejection:
  assumes "hit (rateLimiter_options e) (now_ms ctx) (keyGenerator (trust_proxy e) req) (as_store s) = (st', True)"
  shows "app matches e ctx req s =
     (s \<lparr> as_store := st',
          as_console := as_console s @
            [(LogWarn, ''[Rate Limit] Exceeded - IP: '' @ keyGenerator (trust_proxy e) req @
               '', Path: '' @ or_lit (or_str (Some (req_originalUrl req)) (Some (req_url req))) ''/'' @
               '', Limit: '' @ num_to_string (limit (rateLimiter_options e)) @
               '', Window: '' @ num_to_string (windowMs (rateLimiter_options e)) @ ''ms'')] \<rparr>,
      \<lparr> res_status = 429, res_type = ''application/json'',
        res_body = Json (JObj [(''status'', JNum 429), (''error'', JStr ''Too Many Requests''),
          (''message'', JStr ''You have exceeded the rate limit. Please try again later.'')]) \<rparr>)"
  by (simp add: app_def rateLimiter_reject[OF assms] handler_result json_response_def)
     (simp add: rateLimiter_options_def)

theorem rate_limit_rejection_witness:
  "hit (rateLimiter_options env_limit_one) (now_ms example_ctx)
       (keyGenerator (trust_proxy env_limit_one) get_root) (as_store one_hit_state)
     = ([''10.0.0.7'' \<mapsto> \<lparr> count = 2, windowStart = 0 \<rparr>], True)
   \<and> app exact_match env_limit_one example_ctx get_root one_hit_state =
     (\<lparr> as_store = [''10.0.0.7'' \<mapsto> \<lparr> count = 2, windowStart = 0 \<rparr>],
        as_console = [(LogWarn,
          ''[Rate Limit] Exceeded - IP: 10.0.0.7, Path: /, Limit: 1, Window: 900000ms'')] \<rparr>,
      \<lparr> res_status = 429, res_type = ''application/json'',
        res_body = Json (JObj [(''status'', JNum 429), (''error'', JStr ''Too Many Requests''),
          (''message'', JStr ''You have exceeded the rate limit. Please try again later.'')]) \<rparr>)"
proof -
  have key: "keyGenerator (trust_proxy env_limit_one) get_root = ''10.0.0.7''"
    by (simp add: keyGenerator_def req_ip_def trust_proxy_def env_limit_one_def get_root_def
        or_lit_def or_str_def truthy_str_def)
  have lim: "limit (rateLimiter_options env_limit_one) = 1"
    by (simp add: rateLimiter_options_def env_limit_one_def parseIntWithDefault_def parseInt_def
      js_whitespace_def is_digit_def digits_value_def digit_val_def)
  have win: "windowMs (rateLimiter_options env_limit_one) = 900000"
    by (simp add: rateLimiter_options_def env_limit_one_def parseIntWithDefault_def
        DEFAULT_WINDOW_MS_def)
  have h: "hit (rateLimiter_options env_limit_one) (now_ms example_ctx)
       (keyGenerator (trust_proxy env_limit_one) get_root) (as_store one_hit_state)
     = ([''10.0.0.7'' \<mapsto> \<lparr> count = 2, windowStart = 0 \<rparr>], True)"
    by (simp add: key lim win hit_def one_hit_state_def example_ctx_def numeral_2_eq_2)
  have n1: "num_to_string 1 = ''1''" by (simp add: num_to_string_def digit_char_def)
  have n2: "num_to_string 900000 = ''900000''" by (simp add: num_to_string_def digit_char_def)
  have pth: "or_lit (or_str (Some (req_originalUrl get_root)) (Some (req_url get_root))) ''/'' = ''/''"
    by (simp add: get_root_def or_lit_def or_str_def truthy_str_def)
  have st: "one_hit_state \<lparr> as_store := m, as_console := as_console one_hit_state @ l \<rparr>
      = \<lparr> as_store = m, as_console = l \<rparr>" for m l
    by (simp add: one_hit_state_def)
  have "app exact_match env_limit_one example_ctx get_root one_hit_state =
     (\<lparr> as_store = [''10.0.0.7'' \<mapsto> \<lparr> count = 2, windowStart = 0 \<rparr>],
        as_console = [(LogWarn,
          ''[Rate Limit] Exceeded - IP: 10.0.0.7, Path: /, Limit: 1, Window: 900000ms'')] \<rparr>,
      \<lparr> res_status = 429, res_type = ''application/json'',
        res_body = Json (JObj [(''status'', JNum 429), (''error'', JStr ''Too Many Requests''),
          (''message'', JStr ''You have exceeded the rate limit. Please try again later.'')]) \<rparr>)"
    unfolding rate_limit_rejection [OF h, of exact_match] key lim win n1 n2 pth st
    by simp
  with h show ?thesis by (rule conjI)
qed

subsection \<open>The client identifier\<close>

lemma rateLimiter_store_other:
  "k \<noteq> keyGenerator (trust_proxy e) req \<Longrightarrow>
     as_store (fst (rateLimiter e ctx req s)) k = as_store s k"
  by (simp add: rateLimiter_def hit_def Let_def split: prod.splits)

lemma rateLimiter_store_key:
  "as_store (fst (rateLimiter e ctx req s)) (keyGenerator (trust_proxy e) req) \<noteq> None"
  by (simp add: rateLimiter_def hit_def Let_def split: prod.splits)

lemma trust_proxy_cases: "trust_proxy e = None \<or> trust_proxy e = Some 1"
  by (simp add: trust_proxy_def)

lemma forwarded_addrs_not_empty: "a \<in> set (forwarded_addrs h) \<Longrightarrow> a \<noteq> []"
  by (auto simp add: forwarded_addrs_def split: option.splits)

lemma split_on_single: "c \<notin> set s \<Longrightarrow> split_on c s = [s]"
  by (induction s) auto

lemma dropWhile_none: "\<forall>x \<in> set s. \<not> P x \<Longrightarrow> dropWhile P s = s"
  by (cases s) auto

lemma trim_spaces_id:
  assumes "CHR '' '' \<notin> set s"
  shows "trim_spaces s = s"
proof -
  have a: "dropWhile (\<lambda>c. c = CHR '' '') s = s"
    using assms by (intro dropWhile_none) auto
  have b: "dropWhile (\<lambda>c. c = CHR '' '') (rev s) = rev s"
    using assms by (intro dropWhile_none) auto
  show ?thesis unfolding trim_spaces_def a b by simp
qed

lemma forwarded_addrs_single:
  assumes "f \<noteq> []" "CHR '','' \<notin> set f" "CHR '' '' \<notin> set f"
  shows "forwarded_addrs (Some f) = [f]"
  using assms by (simp add: forwarded_addrs_def split_on_single trim_spaces_id)

lemma key_of_last_forwarded:
  assumes "trust_proxy e \<noteq> None" "forwarded_addrs (req_forwardedFor req) = a # rest"
  shows "keyGenerator (trust_proxy e) req = a"
proof -
  have t: "trust_proxy e = Some 1" using assms(1) trust_proxy_cases [of e] by auto
  have n: "a \<noteq> []" using forwarded_addrs_not_empty [of a "req_forwardedFor req"] assms(2) by simp
  have "req_ip (trust_proxy e) req = Some a"
    by (simp add: req_ip_def t assms(2))
  then show ?thesis using n by (simp add: keyGenerator_def or_lit_def or_str_def truthy_str_def)
qed

lemma key_of_socket:
  assumes "\<not> (trust_proxy e \<noteq> None \<and> forwarded_addrs (req_forwardedFor req) \<noteq> [])"
  shows "keyGenerator (trust_proxy e) req = or_lit (req_remoteAddress req) ''unknown''"
proof -
  have "req_ip (trust_proxy e) req = req_remoteAddress req"
    using assms trust_proxy_cases [of e] by (auto simp add: req_ip_def)
  then show ?thesis
    by (simp add: keyGenerator_def or_lit_def or_str_def truthy_str_def split: option.splits)
qed

text \<open>
  With proxy trust enabled the key is one address of the header, not the value of the
  header: for a header that lists two addresses it is the second.
\<close>

theorem forwarded_header_counterexample:
  "trust_proxy env_trusting = Some 1
   \<and> req_forwardedFor two_hop_request = Some ''198.51.100.1, 203.0.113.9''
   \<and> keyGenerator (trust_proxy env_trusting) two_hop_request = ''203.0.113.9''
   \<and> keyGenerator (trust_proxy env_trusting) two_hop_request \<noteq> ''198.51.100.1, 203.0.113.9''"
proof -
  have t: "trust_proxy env_trusting = Some 1"
    by (simp add: trust_proxy_def env_trusting_def)
  have f: "forwarded_addrs (req_forwardedFor two_hop_request) = [''203.0.113.9'', ''198.51.100.1'']"
    by (simp add: two_hop_request_def forwarded_addrs_def trim_spaces_def)
  have k: "keyGenerator (trust_proxy env_trusting) two_hop_request = ''203.0.113.9''"
    using key_of_last_forwarded [of env_trusting two_hop_request] t f by simp
  have h: "req_forwardedFor two_hop_request = Some ''198.51.100.1, 203.0.113.9''"
    by (simp add: two_hop_request_def)
  have d: "''203.0.113.9'' \<noteq> ''198.51.100.1, 203.0.113.9''" by simp
  show ?thesis unfolding k by (intro conjI) (rule t h refl d)+
qed

text \<open>
  C3 (amended).  The key of the rate-limit counter is, when proxy trust is enabled and
  the forwarded-address header lists an address, the last address of the header (the
  one nearest to the socket; the value of the header when it holds a single address);
  otherwise it is the address of the connection, and \<open>unknown\<close> when that is not
  available.  The limiter creates or updates the counter stored under that key and
  touches no other counter.
\<close>

theorem client_identifier:
  "(trust_proxy e \<noteq> None \<and> forwarded_addrs (req_forwardedFor req) = a # rest
      \<longrightarrow> keyGenerator (trust_proxy e) req = a)
   \<and> (trust_proxy e \<noteq> None \<and> req_forwardedFor req = Some f \<and> f \<noteq> []
        \<and> CHR '','' \<notin> set f \<and> CHR '' '' \<notin> set f
      \<longrightarrow> keyGenerator (trust_proxy e) req = f)
   \<and> (\<not> (trust_proxy e \<noteq> None \<and> forwarded_addrs (req_forwardedFor req) \<noteq> [])
        \<and> req_remoteAddress req = Some b \<and> b \<noteq> []
      \<longrightarrow> keyGenerator (trust_proxy e) req = b)
   \<and> (\<not> (trust_proxy e \<noteq> None \<and> forwarded_addrs (req_forwardedFor req) \<noteq> [])
        \<and> \<not> truthy_str (req_remoteAddress req)
      \<longrightarrow> keyGenerator (trust_proxy e) req = ''unknown'')
   \<and> as_store (fst (rateLimiter e ctx req s)) (keyGenerator (trust_proxy e) req) \<noteq> None
   \<and> (\<forall>k. k \<noteq> keyGenerator (trust_proxy e) req
        \<longrightarrow> as_store (fst (rateLimiter e ctx req s)) k = as_store s k)"
proof -
  have c1: "trust_proxy e \<noteq> None \<and> forwarded_addrs (req_forwardedFor req) = a # rest
      \<longrightarrow> keyGenerator (trust_proxy e) req = a"
    using key_of_last_forwarded by blast
  have c2: "trust_proxy e \<noteq> None \<and> req_forwardedFor req = Some f \<and> f \<noteq> []
        \<and> CHR '','' \<notin> set f \<and> CHR '' '' \<notin> set f
      \<longrightarrow> keyGenerator (trust_proxy e) req = f"
  proof
    assume h: "trust_proxy e \<noteq> None \<and> req_forwardedFor req = Some f \<and> f \<noteq> []
        \<and> CHR '','' \<notin> set f \<and> CHR '' '' \<notin> set f"
    then have "forwarded_addrs (req_forwardedFor req) = [f]"
      by (simp add: forwarded_addrs_single)
    with h show "keyGenerator (trust_proxy e) req = f"
      using key_of_last_forwarded [of e req f "[]"] by simp
  qed
  have c3: "\<not> (trust_proxy e \<noteq> None \<and> forwarded_addrs (req_forwardedFor req) \<noteq> [])
        \<and> req_remoteAddress req = Some b \<and> b \<noteq> []
      \<longrightarrow> keyGenerator (trust_proxy e) req = b"
    using key_of_socket [of e req] by (auto simp add: or_lit_def)
  have c4: "\<not> (trust_proxy e \<noteq> None \<and> forwarded_addrs (req_forwardedFor req) \<noteq> [])
        \<and> \<not> truthy_str (req_remoteAddress req)
      \<longrightarrow> keyGenerator (trust_proxy e) req = ''unknown''"
    using key_of_socket [of e req]
    by (auto simp add: or_lit_def truthy_str_def split: option.splits)
  show ?thesis
    using c1 c2 c3 c4 rateLimiter_store_key rateLimiter_store_other by blast
qed

theorem client_identifier_witness:
  "(trust_proxy env_trusting \<noteq> None
     \<and> forwarded_addrs (req_forwardedFor two_hop_request) = [''203.0.113.9'', ''198.51.100.1'']
     \<and> keyGenerator (trust_proxy env_trusting) two_hop_request = ''203.0.113.9'')
   \<and> (req_forwardedFor proxied_request = Some ''203.0.113.9''
     \<and> keyGenerator (trust_proxy env_trusting) proxied_request = ''203.0.113.9'')
   \<and> (trust_proxy env_limit_one = None \<and> req_remoteAddress proxied_request = Some ''10.0.0.7''
     \<and> keyGenerator (trust_proxy env_limit_one) proxied_request = ''10.0.0.7'')
   \<and> (req_remoteAddress (get_root \<lparr> req_remoteAddress := None \<rparr>) = None
     \<and> keyGenerator (trust_proxy env_limit_one) (get_root \<lparr> req_remoteAddress := None \<rparr>)
         = ''unknown'')
   \<and> as_store (fst (rateLimiter env_limit_one example_ctx proxied_request initial_state))
          ''10.0.0.8'' = as_store initial_state ''10.0.0.8''"
proof -
  have t: "trust_proxy env_trusting \<noteq> None" "trust_proxy env_limit_one = None"
    by (simp_all add: trust_proxy_def env_trusting_def env_limit_one_def)
  have f2: "forwarded_addrs (req_forwardedFor two_hop_request) = [''203.0.113.9'', ''198.51.100.1'']"
    by (simp add: two_hop_request_def forwarded_addrs_def trim_spaces_def)
  have f: "req_forwardedFor proxied_request = Some ''203.0.113.9''"
    "req_remoteAddress proxied_request = Some ''10.0.0.7''"
    by (simp_all add: proxied_request_def)
  have n: "req_remoteAddress (get_root \<lparr> req_remoteAddress := None \<rparr>) = None"
    "\<not> truthy_str (req_remoteAddress (get_root \<lparr> req_remoteAddress := None \<rparr>))"
    by (simp_all add: truthy_str_def)
  have c1: "keyGenerator (trust_proxy env_trusting) two_hop_request = ''203.0.113.9''"
    using client_identifier [where e = env_trusting and req = two_hop_request
        and a = "''203.0.113.9''" and rest = "[''198.51.100.1'']"] t f2
    by blast
  have c2: "keyGenerator (trust_proxy env_trusting) proxied_request = ''203.0.113.9''"
    using client_identifier [where e = env_trusting and req = proxied_request
        and f = "''203.0.113.9''"] t f
    by simp
  have c3: "keyGenerator (trust_proxy env_limit_one) proxied_request = ''10.0.0.7''"
    using client_identifier [where e = env_limit_one and req = proxied_request
        and b = "''10.0.0.7''"] t f
    by simp
  have c4: "keyGenerator (trust_proxy env_limit_one) (get_root \<lparr> req_remoteAddress := None \<rparr>)
         = ''unknown''"
    using client_identifier [where e = env_limit_one
        and req = "get_root \<lparr> req_remoteAddress := None \<rparr>"] t n
    by simp
  have k: "''10.0.0.8'' \<noteq> keyGenerator (trust_proxy env_limit_one) proxied_request"
    by (simp add: c3)
  have c5: "as_store (fst (rateLimiter env_limit_one example_ctx proxied_request initial_state))
          ''10.0.0.8'' = as_store initial_state ''10.0.0.8''"
    using client_identifier [where e = env_limit_one and req = proxied_request
        and ctx = example_ctx and s = initial_state] k
    by blast
  show ?thesis by (intro conjI) (rule t f2 f n c1 c2 c3 c4 c5)+
qed

subsection \<open>The error handler\<close>

lemma errorHandler_response:
  assumes "100 \<le> statusCode_of err" "statusCode_of err \<le> 999"
  shows "snd (errorHandler e err) =
     Inr \<lparr> res_status = statusCode_of err, res_type = ''application/json'',
           res_body = Json (JObj (errorResponse e err)) \<rparr>"
  using assms by (simp add: errorHandler_def json_response_def)

lemma errorHandler_throws:
  assumes "statusCode_of err < 100 \<or> 999 < statusCode_of err"
  shows "snd (errorHandler e err) = Inl (invalid_status_code (statusCode_of err))"
  using assms by (auto simp add: errorHandler_def)

lemma errorResponse_fields:
  "map_of (errorResponse e err) ''status'' = Some (JNum (statusCode_of err))"
  "map_of (errorResponse e err) ''error'' =
     Some (JStr (if statusCode_of err = 500 then ''Internal Server Error'' else ''Error''))"
  "map_of (errorResponse e err) ''message'' =
     Some (JStr (if isProduction e \<and> statusCode_of err = 500 then generic_message
                 else or_lit (err_message err) generic_message))"
  by (simp_all add: errorResponse_def Let_def)

lemma errorResponse_stack:
  "map_of (errorResponse e err) ''stack'' =
     (if \<not> isProduction e \<and> truthy_str (err_stack err) then map_option JStr (err_stack err)
      else None)"
  by (simp add: errorResponse_def Let_def truthy_str_def split: option.splits)

lemma statusCode_of_cases:
  "err_status err = Some n \<and> n \<noteq> 0 \<longrightarrow> statusCode_of err = n"
  "\<not> truthy_num (err_status err) \<and> err_statusCode err = Some m \<and> m \<noteq> 0
     \<longrightarrow> statusCode_of err = m"
  "\<not> truthy_num (err_status err) \<and> \<not> truthy_num (err_statusCode err)
     \<longrightarrow> statusCode_of err = 500"
  by (simp_all add: statusCode_of_def truthy_num_def split: option.splits)

text \<open>
  Outside production an error whose message is empty (or missing) is answered with the
  generic message as well: the generic message is not confined to production and
  status 500.
\<close>

theorem error_message_counterexample:
  "map_of (errorResponse Map.empty err_empty_message) ''message'' = Some (JStr generic_message)
   \<and> \<not> (isProduction Map.empty \<and> statusCode_of err_empty_message = 500)"
  by (simp add: errorResponse_fields isProduction_def or_lit_def err_empty_message_def)

text \<open>
  C4 (amended).  For every error given to the global error handler whose status code is
  one that can be sent (100 to 999): the response status is the error's \<^verbatim>\<open>status\<close> if
  it has one (not 0), else its \<^verbatim>\<open>statusCode\<close> if it has one, else 500; the body is a
  JSON object whose \<open>status\<close> is that code and whose \<open>error\<close> is "Internal Server Error"
  for 500 and "Error" otherwise; the \<open>message\<close> is the generic string when the
  environment is production and the status is 500, and otherwise the error's own
  message, or the generic string when the error has no message; a \<open>stack\<close> field is
  present only outside production.
\<close>

theorem error_handler_response:
  "(err_status err = Some n \<and> n \<noteq> 0 \<and> 100 \<le> n \<and> n \<le> 999
      \<longrightarrow> snd (errorHandler e err) =
            Inr \<lparr> res_status = n, res_type = ''application/json'',
                  res_body = Json (JObj (errorResponse e err)) \<rparr>)
   \<and> (\<not> truthy_num (err_status err) \<and> err_statusCode err = Some m \<and> m \<noteq> 0
        \<and> 100 \<le> m \<and> m \<le> 999
      \<longrightarrow> snd (errorHandler e err) =
            Inr \<lparr> res_status = m, res_type = ''application/json'',
                  res_body = Json (JObj (errorResponse e err)) \<rparr>)
   \<and> (\<not> truthy_num (err_status err) \<and> \<not> truthy_num (err_statusCode err)
      \<longrightarrow> snd (errorHandler e err) =
            Inr \<lparr> res_status = 500, res_type = ''application/json'',
                  res_body = Json (JObj (errorResponse e err)) \<rparr>)
   \<and> map_of (errorResponse e err) ''status'' = Some (JNum (statusCode_of err))
   \<and> map_of (errorResponse e err) ''error'' =
        Some (JStr (if statusCode_of err = 500 then ''Internal Server Error'' else ''Error''))
   \<and> map_of (errorResponse e err) ''message'' =
        Some (JStr (if isProduction e \<and> statusCode_of err = 500 then generic_message
                    else if truthy_str (err_message err) then opt_to_string (err_message err)
                    else generic_message))
   \<and> (map_of (errorResponse e err) ''stack'' \<noteq> None \<longrightarrow> \<not> isProduction e)"
proof -
  have a: "err_status err = Some n \<and> n \<noteq> 0 \<and> 100 \<le> n \<and> n \<le> 999
      \<longrightarrow> snd (errorHandler e err) =
            Inr \<lparr> res_status = n, res_type = ''application/json'',
                  res_body = Json (JObj (errorResponse e err)) \<rparr>"
    using statusCode_of_cases(1) [of err n] errorHandler_response [of err e] by auto
  have b: "\<not> truthy_num (err_status err) \<and> err_statusCode err = Some m \<and> m \<noteq> 0
        \<and> 100 \<le> m \<and> m \<le> 999
      \<longrightarrow> snd (errorHandler e err) =
            Inr \<lparr> res_status = m, res_type = ''application/json'',
                  res_body = Json (JObj (errorResponse e err)) \<rparr>"
    using statusCode_of_cases(2) [of err m] errorHandler_response [of err e] by auto
  have c: "\<not> truthy_num (err_status err) \<and> \<not> truthy_num (err_statusCode err)
      \<longrightarrow> snd (errorHandler e err) =
            Inr \<lparr> res_status = 500, res_type = ''application/json'',
                  res_body = Json (JObj (errorResponse e err)) \<rparr>"
    using statusCode_of_cases(3) [of err] errorHandler_response [of err e] by auto
  have m: "or_lit (err_message err) generic_message =
      (if truthy_str (err_message err) then opt_to_string (err_message err) else generic_message)"
    by (simp add: or_lit_def truthy_str_def opt_to_string_def split: option.splits)
  have st: "map_of (errorResponse e err) ''stack'' \<noteq> None \<longrightarrow> \<not> isProduction e"
    by (simp add: errorResponse_stack)
  show ?thesis
    using a b c st by (simp add: errorResponse_fields m)
qed

theorem error_handler_response_witness:
  "(err_status err_teapot = Some 418 \<and> (418::int) \<noteq> 0 \<and> (100::int) \<le> 418 \<and> (418::int) \<le> 999
      \<and> snd (errorHandler Map.empty err_teapot) =
            Inr \<lparr> res_status = 418, res_type = ''application/json'',
                  res_body = Json (JObj (errorResponse Map.empty err_teapot)) \<rparr>)
   \<and> (\<not> truthy_num (err_status err_status_code_only)
      \<and> err_statusCode err_status_code_only = Some 413
      \<and> snd (errorHandler Map.empty err_status_code_only) =
            Inr \<lparr> res_status = 413, res_type = ''application/json'',
                  res_body = Json (JObj (errorResponse Map.empty err_status_code_only)) \<rparr>)
   \<and> (\<not> truthy_num (err_status err_plain) \<and> \<not> truthy_num (err_statusCode err_plain)
      \<and> snd (errorHandler env_production err_plain) =
            Inr \<lparr> res_status = 500, res_type = ''application/json'',
                  res_body = Json (JObj (errorResponse env_production err_plain)) \<rparr>)
   \<and> (map_of (errorResponse Map.empty err_teapot) ''stack'' \<noteq> None
      \<and> \<not> isProduction Map.empty)"
proof -
  have h1: "err_status err_teapot = Some 418 \<and> (418::int) \<noteq> 0 \<and> (100::int) \<le> 418
      \<and> (418::int) \<le> 999"
    by (simp add: err_teapot_def)
  have h2: "\<not> truthy_num (err_status err_status_code_only)
      \<and> err_statusCode err_status_code_only = Some 413"
    by (simp add: err_status_code_only_def truthy_num_def)
  have h3: "\<not> truthy_num (err_status err_plain) \<and> \<not> truthy_num (err_statusCode err_plain)"
    by (simp add: err_plain_def truthy_num_def)
  have h4: "map_of (errorResponse Map.empty err_teapot) ''stack'' \<noteq> None"
    by (simp add: errorResponse_stack err_teapot_def isProduction_def truthy_str_def)
  have c1: "snd (errorHandler Map.empty err_teapot) =
            Inr \<lparr> res_status = 418, res_type = ''application/json'',
                  res_body = Json (JObj (errorResponse Map.empty err_teapot)) \<rparr>"
    using error_handler_response [where err = err_teapot and n = 418 and e = Map.empty] h1
    by blast
  have c2: "snd (errorHandler Map.empty err_status_code_only) =
            Inr \<lparr> res_status = 413, res_type = ''application/json'',
                  res_body = Json (JObj (errorResponse Map.empty err_status_code_only)) \<rparr>"
    using error_handler_response [where err = err_status_code_only and m = 413
        and e = Map.empty] h2
    by simp
  have c3: "snd (errorHandler env_production err_plain) =
            Inr \<lparr> res_status = 500, res_type = ''application/json'',
                  res_body = Json (JObj (errorResponse env_production err_plain)) \<rparr>"
    using error_handler_response [where err = err_plain and e = env_production] h3 by blast
  have c4: "\<not> isProduction Map.empty"
    using error_handler_response [where err = err_teapot and e = Map.empty] h4 by blast
  show ?thesis
    by (intro conjI) (rule h1 [THEN conjunct1] h1 [THEN conjunct2, THEN conjunct1]
      h1 [THEN conjunct2, THEN conjunct2, THEN conjunct1]
      h1 [THEN conjunct2, THEN conjunct2, THEN conjunct2]
      h2 [THEN conjunct1] h2 [THEN conjunct2] h3 [THEN conjunct1] h3 [THEN conjunct2]
      h4 c1 c2 c3 c4)+
qed

text \<open>
  A status code outside that range is not sent: writing the response throws, and the
  request is answered by the default error handler with status 500.
\<close>

lemma errorHandler_bad_status:
  "snd (errorHandler Map.empty err_bad_status) = Inl (invalid_status_code (- 1))"
  "snd (handle_error Map.empty err_bad_status s) =
     \<lparr> res_status = 500, res_type = ''text/html'', res_body = ErrorPage \<rparr>"
  by (simp_all add: errorHandler_def handle_error_def finalHandler_def statusCode_of_def
      err_bad_status_def)

subsection \<open>The pipeline\<close>

lemma app_rejected:
  assumes "hit (rateLimiter_options e) (now_ms ctx) (keyGenerator (trust_proxy e) req) (as_store s) = (st', True)"
  shows "snd (app matches e ctx req s) = json_response 429 (message (rateLimiter_options e))"
  by (simp add: app_def rateLimiter_reject[OF assms] handler_result)

lemma app_admitted:
  assumes "snd (rateLimiter e ctx req s) = Next" "body_failure ctx = None"
    "req_method req \<noteq> ''OPTIONS''"
  shows "app matches e ctx req s = (fst (rateLimiter e ctx req s), routes matches ctx req)"
  using assms by (cases "rateLimiter e ctx req s") (simp add: app_def cors_stage_def)

lemma default_options:
  "e ''RATE_LIMIT_MAX'' = None \<Longrightarrow> limit (rateLimiter_options e) = 100"
  "e ''RATE_LIMIT_WINDOW_MS'' = None \<Longrightarrow> windowMs (rateLimiter_options e) = 900000"
  by (simp_all add: rateLimiter_options_def parseIntWithDefault_def DEFAULT_MAX_REQUESTS_def
      DEFAULT_WINDOW_MS_def)

lemma limit_one: "limit (rateLimiter_options env_limit_one) = 1"
  by (simp add: rateLimiter_options_def env_limit_one_def parseIntWithDefault_def parseInt_def
      js_whitespace_def is_digit_def digits_value_def digit_val_def)

lemma window_default: "windowMs (rateLimiter_options env_limit_one) = 900000"
  by (simp add: rateLimiter_options_def env_limit_one_def parseIntWithDefault_def
      DEFAULT_WINDOW_MS_def)

lemma key_examples:
  "keyGenerator (trust_proxy env_limit_one) get_root = ''10.0.0.7''"
  "keyGenerator (trust_proxy env_limit_one) get_missing = ''10.0.0.7''"
  by (simp_all add: keyGenerator_def req_ip_def trust_proxy_def env_limit_one_def get_root_def
      get_missing_def or_lit_def or_str_def truthy_str_def)

lemma first_hit:
  "hit (rateLimiter_options env_limit_one) (now_ms example_ctx) ''10.0.0.7''
     (as_store initial_state) = (as_store one_hit_state, False)"
  by (simp add: hit_def limit_one window_default initial_state_def one_hit_state_def
      example_ctx_def)

lemma second_hit:
  "hit (rateLimiter_options env_limit_one) (now_ms example_ctx) ''10.0.0.7''
     (as_store one_hit_state)
   = ([''10.0.0.7'' \<mapsto> \<lparr> count = 2, windowStart = 0 \<rparr>], True)"
  by (simp add: hit_def limit_one window_default one_hit_state_def example_ctx_def
      numeral_2_eq_2)

lemma first_request_admitted:
  "rateLimiter env_limit_one example_ctx get_root initial_state = (one_hit_state, Next)"
  "rateLimiter env_limit_one example_ctx get_missing initial_state = (one_hit_state, Next)"
  using first_hit
  by (simp_all add: rateLimiter_def key_examples initial_state_def one_hit_state_def)

lemma routes_examples:
  "routes exact_match example_ctx get_root = helloHandler"
  "routes exact_match example_ctx get_missing = notFoundHandler get_missing"
  by (simp_all add: routes_def route_get_def exact_match_def get_root_def get_missing_def)

lemma first_response:
  "app exact_match env_limit_one example_ctx get_root initial_state = (one_hit_state, helloHandler)"
  "app exact_match env_limit_one example_ctx get_missing initial_state
     = (one_hit_state, notFoundHandler get_missing)"
proof -
  have b: "body_failure example_ctx = None" by (simp add: example_ctx_def)
  have m: "req_method get_root \<noteq> ''OPTIONS''" "req_method get_missing \<noteq> ''OPTIONS''"
    by (simp_all add: get_root_def get_missing_def)
  show "app exact_match env_limit_one example_ctx get_root initial_state = (one_hit_state, helloHandler)"
    using app_admitted [of env_limit_one example_ctx get_root initial_state exact_match] b m
    by (simp add: first_request_admitted routes_examples)
  show "app exact_match env_limit_one example_ctx get_missing initial_state
     = (one_hit_state, notFoundHandler get_missing)"
    using app_admitted [of env_limit_one example_ctx get_missing initial_state exact_match] b m
    by (simp add: first_request_admitted routes_examples)
qed

lemma second_response:
  "res_status (snd (app exact_match env_limit_one example_ctx get_root one_hit_state)) = 429"
  "res_status (snd (app exact_match env_limit_one example_ctx get_missing one_hit_state)) = 429"
  using app_rejected [of env_limit_one example_ctx get_root one_hit_state _ exact_match]
    app_rejected [of env_limit_one example_ctx get_missing one_hit_state _ exact_match]
    second_hit
  by (simp_all add: key_examples json_response_def)

text \<open>
  With \<^verbatim>\<open>RATE_LIMIT_MAX=1\<close> the second \<^verbatim>\<open>GET /\<close> of a client within the window is
  answered by the limiter, not by the route.
\<close>

theorem get_root_counterexample:
  "req_method get_root = ''GET'' \<and> req_path get_root = ''/''
   \<and> map res_status (snd (serve exact_match env_limit_one
        [(example_ctx, get_root), (example_ctx, get_root)] initial_state)) = [200, 429]"
proof -
  have "res_status helloHandler = 200" by (simp add: helloHandler_def)
  then show ?thesis
    using second_response(1)
    by (simp add: first_response split_beta) (simp add: get_root_def)
qed

text \<open>
  C7 (amended).  Every GET request to the path \<open>/\<close> that the rate limiter admits and
  on which the body parsers raise no error is answered with status 200, content type
  \<open>text/plain\<close> and the body \<open>Hello, World!\<close> followed by a line feed.
\<close>

theorem hello_route:
  assumes "req_method req = ''GET''" "matches ''/'' (req_path req)"
    "snd (rateLimiter e ctx req s) = Next" "body_failure ctx = None"
  shows "snd (app matches e ctx req s) =
     \<lparr> res_status = 200, res_type = ''text/plain'',
       res_body = Text (''Hello, World!'' @ [CHR 0x0A]) \<rparr>"
proof -
  have "req_method req \<noteq> ''OPTIONS''" using assms(1) by simp
  then have "snd (app matches e ctx req s) = routes matches ctx req"
    using app_admitted assms(3,4) by simp
  then show ?thesis
    using assms(1,2) by (simp add: routes_def route_get_def helloHandler_def)
qed

theorem hello_route_witness:
  "req_method get_root = ''GET'' \<and> exact_match ''/'' (req_path get_root)
   \<and> snd (rateLimiter env_limit_one example_ctx get_root initial_state) = Next
   \<and> body_failure example_ctx = None
   \<and> snd (app exact_match env_limit_one example_ctx get_root initial_state) =
     \<lparr> res_status = 200, res_type = ''text/plain'',
       res_body = Text (''Hello, World!'' @ [CHR 0x0A]) \<rparr>"
proof -
  have a: "req_method get_root = ''GET''" "exact_match ''/'' (req_path get_root)"
    by (simp_all add: get_root_def exact_match_def)
  have b: "snd (rateLimiter env_limit_one example_ctx get_root initial_state) = Next"
    by (simp add: first_request_admitted)
  have c: "body_failure example_ctx = None" by (simp add: example_ctx_def)
  show ?thesis
    using hello_route [where matches = exact_match, OF a b c] a b c by simp
qed

text \<open>
  The same holds for a path without a route: the second request of the client is answered
  with 429, not 404.
\<close>

theorem not_found_counterexample:
  "\<not> route_get exact_match ''/'' get_missing \<and> \<not> route_get exact_match ''/health'' get_missing
   \<and> map res_status (snd (serve exact_match env_limit_one
        [(example_ctx, get_missing), (example_ctx, get_missing)] initial_state)) = [404, 429]"
proof -
  have "res_status (notFoundHandler get_missing) = 404"
    by (simp add: notFoundHandler_def json_response_def)
  moreover have "\<not> route_get exact_match ''/'' get_missing"
    "\<not> route_get exact_match ''/health'' get_missing"
    by (simp_all add: route_get_def exact_match_def get_missing_def)
  ultimately show ?thesis
    using second_response(2)
    by (simp add: first_response split_beta)
qed

text \<open>
  C8 (amended).  Every request that matches neither route, is not an OPTIONS request, is
  admitted by the rate limiter and on which the body parsers raise no error is answered
  with status 404 and the JSON body \<open>{status: 404, error: "Not Found", message: <string>,
  path: <originalUrl>}\<close>, where \<open>path\<close> is the request target as it was received.
\<close>

theorem not_found:
  assumes "\<not> route_get matches ''/'' req" "\<not> route_get matches ''/health'' req"
    "req_method req \<noteq> ''OPTIONS''"
    "snd (rateLimiter e ctx req s) = Next" "body_failure ctx = None"
  shows "snd (app matches e ctx req s) =
     \<lparr> res_status = 404, res_type = ''application/json'',
       res_body = Json (JObj [(''status'', JNum 404), (''error'', JStr ''Not Found''),
         (''message'', JStr ''The requested resource could not be found''),
         (''path'', JStr (req_originalUrl req))]) \<rparr>"
proof -
  have "snd (app matches e ctx req s) = routes matches ctx req"
    using app_admitted assms(3,4,5) by simp
  then show ?thesis
    using assms(1,2) by (simp add: routes_def notFoundHandler_def json_response_def)
qed

theorem not_found_witness:
  "\<not> route_get exact_match ''/'' get_missing \<and> \<not> route_get exact_match ''/health'' get_missing
   \<and> req_method get_missing \<noteq> ''OPTIONS''
   \<and> snd (rateLimiter env_limit_one example_ctx get_missing initial_state) = Next
   \<and> body_failure example_ctx = None
   \<and> snd (app exact_match env_limit_one example_ctx get_missing initial_state) =
     \<lparr> res_status = 404, res_type = ''application/json'',
       res_body = Json (JObj [(''status'', JNum 404), (''error'', JStr ''Not Found''),
         (''message'', JStr ''The requested resource could not be found''),
         (''path'', JStr ''/does-not-exist'')]) \<rparr>"
proof -
  have a: "\<not> route_get exact_match ''/'' get_missing"
    "\<not> route_get exact_match ''/health'' get_missing"
    "req_method get_missing \<noteq> ''OPTIONS''"
    by (simp_all add: route_get_def exact_match_def get_missing_def)
  have b: "snd (rateLimiter env_limit_one example_ctx get_missing initial_state) = Next"
    by (simp add: first_request_admitted)
  have c: "body_failure example_ctx = None" by (simp add: example_ctx_def)
  have d: "req_originalUrl get_missing = ''/does-not-exist''" by (simp add: get_missing_def)
  show ?thesis
    using not_found [OF a b c] a b c d by simp
qed

subsection \<open>The CORS whitelist\<close>

lemma split_on_not_Nil: "split_on c s \<noteq> []"
  by (induction s) (auto split: list.splits)

lemma split_on_pieces: "p \<in> set (split_on c s) \<Longrightarrow> set p \<subseteq> set s - {c}"
proof (induction s arbitrary: p)
  case Nil
  then show ?case by simp
next
  case (Cons x xs)
  show ?case
  proof (cases "x = c")
    case True
    with Cons show ?thesis by auto
  next
    case False
    obtain q qs where q: "split_on c xs = q # qs"
      using split_on_not_Nil [of c xs] by (cases "split_on c xs") auto
    with Cons.prems False have "p = x # q \<or> p \<in> set qs" by auto
    then show ?thesis
    proof
      assume "p = x # q"
      moreover have "set q \<subseteq> set xs - {c}" using Cons.IH [of q] q by simp
      ultimately show ?thesis using False by auto
    next
      assume "p \<in> set qs"
      then have "set p \<subseteq> set xs - {c}" using Cons.IH [of p] q by simp
      then show ?thesis by auto
    qed
  qed
qed

lemma js_trim_blank:
  assumes "\<forall>c \<in> set s. js_whitespace c"
  shows "js_trim s = []"
proof -
  have e: "dropWhile js_whitespace s = []"
    using assms by (simp add: dropWhile_eq_Nil_conv)
  show ?thesis unfolding js_trim_def e by simp
qed

lemma js_trim_ends:
  assumes "js_trim s \<noteq> []"
  shows "\<not> js_whitespace (hd (js_trim s))" "\<not> js_whitespace (last (js_trim s))"
proof -
  let ?t = "dropWhile js_whitespace s"
  let ?u = "dropWhile js_whitespace (rev ?t)"
  have u: "?u \<noteq> []" using assms by (simp add: js_trim_def)
  have t: "?t \<noteq> []"
  proof
    assume e: "?t = []"
    have "?u = []" unfolding e by simp
    with u show False by simp
  qed
  have "\<not> js_whitespace (hd ?u)" using u by (rule hd_dropWhile)
  then show "\<not> js_whitespace (last (js_trim s))"
    using u by (simp add: js_trim_def last_rev)
  obtain ys where ys: "rev ?t = ys @ ?u"
    by (metis takeWhile_dropWhile_id)
  have "last ?u = last (rev ?t)" using ys u by (metis last_appendR)
  also have "\<dots> = hd ?t" using t by (simp add: last_rev)
  finally have "hd (js_trim s) = hd ?t" using u by (simp add: js_trim_def hd_rev)
  moreover have "\<not> js_whitespace (hd ?t)" using t by (rule hd_dropWhile)
  ultimately show "\<not> js_whitespace (hd (js_trim s))" by simp
qed

lemma dropWhile_hd_id: "xs \<noteq> [] \<Longrightarrow> \<not> P (hd xs) \<Longrightarrow> dropWhile P xs = xs"
  by (cases xs) auto

lemma js_trim_idem: "js_trim (js_trim s) = js_trim s"
proof (cases "js_trim s = []")
  case True
  have "js_trim [] = []" by (simp add: js_trim_def)
  with True show ?thesis by simp
next
  case False
  let ?r = "js_trim s"
  have a: "dropWhile js_whitespace ?r = ?r"
    using False js_trim_ends(1) [OF False] by (rule dropWhile_hd_id)
  have "rev ?r \<noteq> []" using False by simp
  moreover have "\<not> js_whitespace (hd (rev ?r))"
    using False js_trim_ends(2) [OF False] by (simp add: hd_rev)
  ultimately have b: "dropWhile js_whitespace (rev ?r) = rev ?r" by (rule dropWhile_hd_id)
  have "js_trim ?r = rev (dropWhile js_whitespace (rev (dropWhile js_whitespace ?r)))"
    by (simp only: js_trim_def)
  also have "\<dots> = ?r" by (simp only: a b rev_rev_ident)
  finally show ?thesis .
qed

lemma parseAllowedOrigins_set:
  assumes "e ''ALLOWED_ORIGINS'' = Some v" "v \<noteq> []"
  shows "parseAllowedOrigins e =
    filter (\<lambda>origin. length origin > 0) (map js_trim (split_on CHR '','' v))"
  using assms by (simp add: parseAllowedOrigins_def)

lemma parseAllowedOrigins_blank:
  assumes "e ''ALLOWED_ORIGINS'' = Some v" "v \<noteq> []"
    "\<forall>c \<in> set v. c = CHR '','' \<or> js_whitespace c"
  shows "parseAllowedOrigins e = []"
proof -
  have "js_trim p = []" if "p \<in> set (split_on CHR '','' v)" for p
  proof -
    have "set p \<subseteq> set v - {CHR '',''}" using that by (rule split_on_pieces)
    then have "\<forall>c \<in> set p. js_whitespace c" using assms(3) by auto
    then show ?thesis by (rule js_trim_blank)
  qed
  then show ?thesis
    using assms(1,2) by (simp add: parseAllowedOrigins_set filter_empty_conv)
qed

lemma parseAllowedOrigins_trimmed:
  assumes "e ''ALLOWED_ORIGINS'' = Some v" "v \<noteq> []" "origin \<in> set (parseAllowedOrigins e)"
  shows "origin \<noteq> []" "js_trim origin = origin"
    "\<not> js_whitespace (hd origin)" "\<not> js_whitespace (last origin)"
proof -
  obtain p where p: "origin = js_trim p" and n: "origin \<noteq> []"
    using assms by (auto simp add: parseAllowedOrigins_set)
  show "origin \<noteq> []" by (rule n)
  show "js_trim origin = origin" by (simp add: p js_trim_idem)
  show "\<not> js_whitespace (hd origin)" "\<not> js_whitespace (last origin)"
    using n js_trim_ends [of p] by (simp_all add: p)
qed

text \<open>
  C9.  When \<^verbatim>\<open>ALLOWED_ORIGINS\<close> is set and not empty but holds only commas and white
  space, the parsed whitelist is the empty list, so that no origin is allowed.  The two
  localhost origins are the result when the variable is unset or the empty string; for
  every other value the result is the list of the trimmed, non-empty pieces of the
  value, and each of its entries has no white space at either end.
\<close>

theorem allowed_origins:
  "(e ''ALLOWED_ORIGINS'' = Some v \<and> v \<noteq> [] \<and> (\<forall>c \<in> set v. c = CHR '','' \<or> js_whitespace c)
      \<longrightarrow> parseAllowedOrigins e = [] \<and> (\<forall>origin. \<not> origin_allowed (parseAllowedOrigins e) origin))
   \<and> (e ''ALLOWED_ORIGINS'' = None \<or> e ''ALLOWED_ORIGINS'' = Some []
      \<longrightarrow> parseAllowedOrigins e = [''http://localhost:3000'', ''http://localhost:8080''])
   \<and> (e ''ALLOWED_ORIGINS'' = Some v \<and> v \<noteq> []
      \<longrightarrow> parseAllowedOrigins e =
            filter (\<lambda>origin. length origin > 0) (map js_trim (split_on CHR '','' v))
          \<and> (\<forall>origin \<in> set (parseAllowedOrigins e).
                origin \<noteq> [] \<and> js_trim origin = origin
                \<and> \<not> js_whitespace (hd origin) \<and> \<not> js_whitespace (last origin)))"
proof (intro conjI impI)
  assume a: "e ''ALLOWED_ORIGINS'' = Some v \<and> v \<noteq> [] \<and> (\<forall>c \<in> set v. c = CHR '','' \<or> js_whitespace c)"
  then show b: "parseAllowedOrigins e = []" by (simp add: parseAllowedOrigins_blank)
  show "\<forall>origin. \<not> origin_allowed (parseAllowedOrigins e) origin"
    by (simp add: b origin_allowed_def)
next
  assume "e ''ALLOWED_ORIGINS'' = None \<or> e ''ALLOWED_ORIGINS'' = Some []"
  then show "parseAllowedOrigins e = [''http://localhost:3000'', ''http://localhost:8080'']"
    by (auto simp add: parseAllowedOrigins_def DEFAULT_ORIGINS_def)
next
  assume a: "e ''ALLOWED_ORIGINS'' = Some v \<and> v \<noteq> []"
  then show "parseAllowedOrigins e =
            filter (\<lambda>origin. length origin > 0) (map js_trim (split_on CHR '','' v))"
    by (simp add: parseAllowedOrigins_set)
  show "\<forall>origin \<in> set (parseAllowedOrigins e).
                origin \<noteq> [] \<and> js_trim origin = origin
                \<and> \<not> js_whitespace (hd origin) \<and> \<not> js_whitespace (last origin)"
    using a parseAllowedOrigins_trimmed [of e v] by blast
qed

theorem allowed_origins_witness:
  "(env_blank_origins ''ALLOWED_ORIGINS'' = Some '' , ,'' \<and> '' , ,'' \<noteq> []
      \<and> parseAllowedOrigins env_blank_origins = []
      \<and> \<not> origin_allowed (parseAllowedOrigins env_blank_origins) ''http://localhost:3000'')
   \<and> (Map.empty ''ALLOWED_ORIGINS'' = (None :: string option)
      \<and> parseAllowedOrigins Map.empty = [''http://localhost:3000'', ''http://localhost:8080''])
   \<and> (env_two_origins ''ALLOWED_ORIGINS'' = Some '' https://a.example , https://b.example,''
      \<and> parseAllowedOrigins env_two_origins = [''https://a.example'', ''https://b.example'']
      \<and> ''https://a.example'' \<in> set (parseAllowedOrigins env_two_origins)
      \<and> js_trim ''https://a.example'' = ''https://a.example'')"
proof -
  have h1: "env_blank_origins ''ALLOWED_ORIGINS'' = Some '' , ,'' \<and> '' , ,'' \<noteq> []
      \<and> (\<forall>c \<in> set '' , ,''. c = CHR '','' \<or> js_whitespace c)"
    by (simp add: env_blank_origins_def js_whitespace_def)
  have c1: "parseAllowedOrigins env_blank_origins = []
      \<and> \<not> origin_allowed (parseAllowedOrigins env_blank_origins) ''http://localhost:3000''"
    using allowed_origins [of env_blank_origins "'' , ,''"] h1 by blast
  have h2: "Map.empty ''ALLOWED_ORIGINS'' = (None :: string option)" by simp
  have c2: "parseAllowedOrigins Map.empty = [''http://localhost:3000'', ''http://localhost:8080'']"
    using allowed_origins [of Map.empty] h2 by blast
  have h3: "env_two_origins ''ALLOWED_ORIGINS'' = Some '' https://a.example , https://b.example,''"
    by (simp add: env_two_origins_def)
  have n3: "'' https://a.example , https://b.example,'' \<noteq> []" by simp
  have "parseAllowedOrigins env_two_origins =
      filter (\<lambda>origin. length origin > 0)
        (map js_trim (split_on CHR '','' '' https://a.example , https://b.example,''))"
    using allowed_origins [of env_two_origins "'' https://a.example , https://b.example,''"] h3 n3
    by blast
  also have "\<dots> = [''https://a.example'', ''https://b.example'']"
    by (simp add: js_trim_def js_whitespace_def)
  finally have c3: "parseAllowedOrigins env_two_origins = [''https://a.example'', ''https://b.example'']" .
  have m3: "''https://a.example'' \<in> set (parseAllowedOrigins env_two_origins)"
    by (simp add: c3)
  have t3: "js_trim ''https://a.example'' = ''https://a.example''"
    using allowed_origins [of env_two_origins "'' https://a.example , https://b.example,''"] h3 n3 m3
    by blast
  show ?thesis by (intro conjI) (rule h1 [THEN conjunct1] h1 [THEN conjunct2, THEN conjunct1]
      c1 [THEN conjunct1] c1 [THEN conjunct2] h2 c2 h3 c3 m3 t3)+
qed

subsection \<open>The TLS listener\<close>

lemma console_line_fs_ops [simp]: "p_fs_ops (console_line l s p) = p_fs_ops p"
  by (simp add: console_line_def)

lemma console_line_listeners [simp]: "listeners (console_line l s p) = listeners p"
  by (simp add: console_line_def listeners_def)

lemma existsSync_simps [simp]:
  "fst (existsSync w path p) = (fs w path \<noteq> Missing)"
  "p_fs_ops (snd (existsSync w path p)) = p_fs_ops p @ [ExistsSync path]"
  "listeners (snd (existsSync w path p)) = listeners p"
  "p_console (snd (existsSync w path p)) = p_console p"
  by (simp_all add: existsSync_def listeners_def)

lemma readFileSync_simps [simp]:
  "p_fs_ops (snd (readFileSync w path p)) = p_fs_ops p @ [ReadFileSync path]"
  "listeners (snd (readFileSync w path p)) = listeners p"
  "p_console (snd (readFileSync w path p)) = p_console p"
  by (simp_all add: readFileSync_def listeners_def)

lemma readFileSync_result:
  "fst (readFileSync w path p) = Inr content \<longleftrightarrow> fs w path = File content"
  by (simp add: readFileSync_def split: fs_node.splits)

lemma loadCertificates_try_listeners:
  "listeners (snd (loadCertificates_try e w p)) = listeners p"
  by (simp add: loadCertificates_try_def Let_def split_beta split: prod.splits sum.splits)

lemma loadCertificates_try_fs_ops:
  "\<exists>ops. p_fs_ops (snd (loadCertificates_try e w p))
          = p_fs_ops p @ ExistsSync (resolve w (keyPath e)) # ops"
  by (simp add: loadCertificates_try_def Let_def split_beta split: prod.splits sum.splits)

lemma loadCertificates_try_fails:
  assumes "file_unusable w (resolve w (keyPath e)) \<or> file_unusable w (resolve w (certPath e))"
  shows "\<exists>err. fst (loadCertificates_try e w p) = Inl err"
  using assms
  by (auto simp add: loadCertificates_try_def Let_def split_beta file_unusable_def
      readFileSync_def split: prod.splits sum.splits fs_node.splits)

lemma loadCertificates_snd:
  "snd (loadCertificates e w p) = snd (loadCertificates_try e w p)"
  by (simp add: loadCertificates_def split: prod.splits sum.splits)

lemma loadCertificates_fails:
  assumes "file_unusable w (resolve w (keyPath e)) \<or> file_unusable w (resolve w (certPath e))"
  shows "\<exists>err. fst (loadCertificates e w p) = Inl err"
proof -
  obtain err where "fst (loadCertificates_try e w p) = Inl err"
    using loadCertificates_try_fails [OF assms] by blast
  then show ?thesis
    by (cases "loadCertificates_try e w p") (simp add: loadCertificates_def)
qed

lemma getHttpsOptions_snd:
  "snd (getHttpsOptions e w p) = snd (loadCertificates e w p)"
  by (simp add: getHttpsOptions_def split: prod.splits sum.splits)

lemma getHttpsOptions_fails:
  "fst (loadCertificates e w p) = Inl err \<Longrightarrow> fst (getHttpsOptions e w p) = Inl err"
  by (cases "loadCertificates e w p") (simp add: getHttpsOptions_def)

lemma createSecureServer_invalid:
  assumes "parseInt (port_to_string port) = None
     \<or> (\<exists>n. parseInt (port_to_string port) = Some n \<and> (n < 0 \<or> 65535 < n))"
  shows "createSecureServer e w (Some port) p = (Inl (invalid_port port), p)"
  using assms by (auto simp add: createSecureServer_def)

lemma createSecureServer_valid:
  assumes "parseInt (port_to_string port) = Some n" "0 \<le> n" "n \<le> 65535"
  shows "p_fs_ops (snd (createSecureServer e w (Some port) p))
     = p_fs_ops (snd (loadCertificates e w (console_line LogInfo ''Initializing HTTPS server...'' p)))"
  using assms
  by (simp add: createSecureServer_def getHttpsOptions_snd [symmetric]
      split: prod.splits sum.splits option.splits)

lemma createSecureServer_listeners:
  "listeners (snd (createSecureServer e w port_arg p)) = listeners p"
proof -
  have "listeners (snd (getHttpsOptions e w q)) = listeners q" for q
    by (simp add: getHttpsOptions_snd loadCertificates_snd loadCertificates_try_listeners)
  then have "\<And>q r x. getHttpsOptions e w q = (x, r) \<Longrightarrow> listeners r = listeners q"
    by (metis snd_conv)
  then show ?thesis
    by (auto simp add: createSecureServer_def Let_def
        split: prod.splits sum.splits option.splits)
qed

lemma createSecureServer_fails:
  assumes "file_unusable w (resolve w (keyPath e)) \<or> file_unusable w (resolve w (certPath e))"
  shows "\<exists>err. fst (createSecureServer e w port_arg p) = Inl err"
proof -
  have "\<exists>err. fst (getHttpsOptions e w q) = Inl err" for q
    using loadCertificates_fails [OF assms] getHttpsOptions_fails by blast
  then have "\<And>q r x. getHttpsOptions e w q = (Inr x, r) \<Longrightarrow> False"
    by (metis fst_conv sum.distinct(1))
  then show ?thesis
    by (auto simp add: createSecureServer_def Let_def
        split: prod.splits sum.splits option.splits)
qed

lemma start_https_failure:
  assumes "ENABLE_HTTPS e" "fst (createSecureServer e w (Some (HTTPS_PORT e)) p) = Inl err"
  shows "p_console (start_https e w p)
      = p_console (snd (createSecureServer e w (Some (HTTPS_PORT e)) p)) @ https_failure_lines err"
    "listeners (start_https e w p) = listeners p"
proof -
  obtain q where q: "createSecureServer e w (Some (HTTPS_PORT e)) p = (Inl err, q)"
    using assms(2) by (cases "createSecureServer e w (Some (HTTPS_PORT e)) p") simp
  have "listeners q = listeners p"
    using createSecureServer_listeners [of e w "Some (HTTPS_PORT e)" p] q by simp
  then show "listeners (start_https e w p) = listeners p"
    using assms(1) q by (simp add: start_https_def listeners_def)
  show "p_console (start_https e w p)
      = p_console (snd (createSecureServer e w (Some (HTTPS_PORT e)) p)) @ https_failure_lines err"
    using assms(1) q by (simp add: start_https_def)
qed

lemma listeners_start_http:
  "listeners (start_http e boot) = (True, None, False, None)"
  by (simp add: listeners_def start_http_def boot_def)

text \<open>
  C10.  \<^verbatim>\<open>createSecureServer\<close> throws the "Invalid port number" error, leaving the process
  as it was (no file-system call, no console output), for every port argument that
  \<^verbatim>\<open>parseInt\<close> does not read as a number or reads as a number below 0 or above 65535.
  For every port that it reads as a number from 0 to 65535 it goes on to load the
  certificates: its file-system calls are those of \<^verbatim>\<open>loadCertificates\<close>, the first of
  which tests the key file.
\<close>

theorem createSecureServer_port_check:
  "((parseInt (port_to_string port) = None
       \<or> (\<exists>n. parseInt (port_to_string port) = Some n \<and> (n < 0 \<or> 65535 < n)))
      \<longrightarrow> createSecureServer e w (Some port) p =
            (Inl (mk_error (''Invalid port number: '' @ port_to_string port @
                            ''. Port must be between 0 and 65535.'')), p))
   \<and> (parseInt (port_to_string port) = Some n \<and> 0 \<le> n \<and> n \<le> 65535
      \<longrightarrow> p_fs_ops (snd (createSecureServer e w (Some port) p))
            = p_fs_ops (snd (loadCertificates e w (console_line LogInfo ''Initializing HTTPS server...'' p)))
          \<and> (\<exists>ops. p_fs_ops (snd (createSecureServer e w (Some port) p))
                     = p_fs_ops p @ ExistsSync (resolve w (keyPath e)) # ops))"
proof (intro conjI impI)
  assume "parseInt (port_to_string port) = None
       \<or> (\<exists>n. parseInt (port_to_string port) = Some n \<and> (n < 0 \<or> 65535 < n))"
  then show "createSecureServer e w (Some port) p =
            (Inl (mk_error (''Invalid port number: '' @ port_to_string port @
                            ''. Port must be between 0 and 65535.'')), p)"
    by (simp add: createSecureServer_invalid invalid_port_def)
next
  assume a: "parseInt (port_to_string port) = Some n \<and> 0 \<le> n \<and> n \<le> 65535"
  then show b: "p_fs_ops (snd (createSecureServer e w (Some port) p))
            = p_fs_ops (snd (loadCertificates e w (console_line LogInfo ''Initializing HTTPS server...'' p)))"
    by (simp add: createSecureServer_valid)
  show "\<exists>ops. p_fs_ops (snd (createSecureServer e w (Some port) p))
                     = p_fs_ops p @ ExistsSync (resolve w (keyPath e)) # ops"
    using loadCertificates_try_fs_ops [of e w "console_line LogInfo ''Initializing HTTPS server...'' p"]
    by (simp add: b loadCertificates_snd)
qed

theorem createSecureServer_port_check_witness:
  "(parseInt (port_to_string (PortStr ''abc'')) = None
     \<and> createSecureServer env_https world_without_certs (Some (PortStr ''abc'')) boot =
         (Inl (mk_error ''Invalid port number: abc. Port must be between 0 and 65535.''), boot))
   \<and> (parseInt (port_to_string (PortNum 70000)) = Some 70000 \<and> (65535::int) < 70000
     \<and> createSecureServer env_https world_without_certs (Some (PortNum 70000)) boot =
         (Inl (mk_error ''Invalid port number: 70000. Port must be between 0 and 65535.''), boot))
   \<and> (parseInt (port_to_string (PortStr ''8443'')) = Some 8443 \<and> (0::int) \<le> 8443
     \<and> (8443::int) \<le> 65535
     \<and> p_fs_ops (snd (createSecureServer env_https world_without_certs (Some (PortStr ''8443'')) boot))
         = [ExistsSync ''/srv/app/./certs/server.key''])"
proof -
  have s1: "port_to_string (PortStr ''abc'') = ''abc''"
    "port_to_string (PortStr ''8443'') = ''8443''"
    by (simp_all add: port_to_string_def)
  have s2: "port_to_string (PortNum 70000) = ''70000''"
    by (simp add: port_to_string_def num_to_string_def digit_char_def)
  have h1: "parseInt (port_to_string (PortStr ''abc'')) = None"
    unfolding s1 by (simp add: parseInt_def js_whitespace_def is_digit_def)
  have h2: "parseInt (port_to_string (PortNum 70000)) = Some 70000"
    unfolding s2
    by (simp add: parseInt_def js_whitespace_def is_digit_def digits_value_def digit_val_def)
  have h3: "parseInt (port_to_string (PortStr ''8443'')) = Some 8443"
    unfolding s1
    by (simp add: parseInt_def js_whitespace_def is_digit_def digits_value_def digit_val_def)
  have c1: "createSecureServer env_https world_without_certs (Some (PortStr ''abc'')) boot =
         (Inl (mk_error ''Invalid port number: abc. Port must be between 0 and 65535.''), boot)"
    using createSecureServer_port_check [of "PortStr ''abc''" env_https world_without_certs boot] h1
    by (simp add: s1)
  have c2: "createSecureServer env_https world_without_certs (Some (PortNum 70000)) boot =
         (Inl (mk_error ''Invalid port number: 70000. Port must be between 0 and 65535.''), boot)"
    using createSecureServer_port_check [of "PortNum 70000" env_https world_without_certs boot] h2
    by (simp add: s2)
  have l: "p_fs_ops (snd (loadCertificates env_https world_without_certs
              (console_line LogInfo ''Initializing HTTPS server...'' boot)))
         = [ExistsSync ''/srv/app/./certs/server.key'']"
    by (simp add: loadCertificates_snd loadCertificates_try_def world_without_certs_def
        keyPath_def env_https_def or_lit_def DEFAULT_KEY_PATH_def boot_def Let_def
        existsSync_def console_line_def)
  have c3: "p_fs_ops (snd (createSecureServer env_https world_without_certs (Some (PortStr ''8443'')) boot))
         = [ExistsSync ''/srv/app/./certs/server.key'']"
    using createSecureServer_port_check [where port = "PortStr ''8443''" and n = 8443
        and e = env_https and w = world_without_certs and p = boot] h3
    by (simp add: l)
  show ?thesis using h1 h2 h3 c1 c2 c3 by simp
qed

text \<open>
  C5.  With \<^verbatim>\<open>ENABLE_HTTPS=true\<close>, when the key or the certificate file is missing,
  unreadable or empty, or \<^verbatim>\<open>createSecureServer\<close> throws for any other reason, the start-up
  catches the error, logs it with the troubleshooting steps and goes on: the HTTP
  listener stays open, there is no HTTPS listener, and the process has not exited.
\<close>

theorem https_startup_failure_not_fatal:
  assumes "ENABLE_HTTPS e"
    and "file_unusable w (resolve w (keyPath e)) \<or> file_unusable w (resolve w (certPath e))
         \<or> (\<exists>err. fst (createSecureServer e w (Some (HTTPS_PORT e)) (start_http e boot)) = Inl err)"
  shows "\<exists>err. fst (createSecureServer e w (Some (HTTPS_PORT e)) (start_http e boot)) = Inl err
     \<and> (LogError, ''Failed to start HTTPS server: '' @ opt_to_string (err_message err))
          \<in> set (p_console (server_main e w))
     \<and> (LogError, ''Troubleshooting steps:'') \<in> set (p_console (server_main e w))
     \<and> (LogError, ''1. Ensure SSL certificate files exist at configured paths'')
          \<in> set (p_console (server_main e w))
     \<and> (LogError, ''2. Verify SSL_KEY_PATH and SSL_CERT_PATH environment variables'')
          \<in> set (p_console (server_main e w))
     \<and> (LogError, ''3. Check file permissions on certificate files'')
          \<in> set (p_console (server_main e w))
     \<and> (LogError, ''4. For development, generate self-signed certificates'')
          \<in> set (p_console (server_main e w))
     \<and> (LogError, ''HTTP server will continue running without HTTPS.'')
          \<in> set (p_console (server_main e w))
     \<and> http_open (server_main e w) \<and> httpsServer (server_main e w) = None
     \<and> \<not> https_open (server_main e w) \<and> exit_code (server_main e w) = None"
proof -
  obtain err where err: "fst (createSecureServer e w (Some (HTTPS_PORT e)) (start_http e boot)) = Inl err"
    using assms(2) createSecureServer_fails [of w e "Some (HTTPS_PORT e)" "start_http e boot"]
    by blast
  have c: "p_console (server_main e w)
      = p_console (snd (createSecureServer e w (Some (HTTPS_PORT e)) (start_http e boot)))
        @ https_failure_lines err"
    unfolding server_main_def by (rule start_https_failure(1) [OF assms(1) err])
  have "listeners (server_main e w) = (True, None, False, None)"
    unfolding server_main_def
    by (simp add: start_https_failure(2) [OF assms(1) err] listeners_start_http)
  then have l: "http_open (server_main e w) \<and> httpsServer (server_main e w) = None
     \<and> \<not> https_open (server_main e w) \<and> exit_code (server_main e w) = None"
    by (simp add: listeners_def)
  show ?thesis
    by (rule exI [of _ err]) (simp add: err c l https_failure_lines_def)
qed

theorem https_startup_failure_not_fatal_witness:
  "ENABLE_HTTPS env_https
   \<and> file_unusable world_without_certs (resolve world_without_certs (keyPath env_https))
   \<and> (LogError, ''HTTP server will continue running without HTTPS.'')
        \<in> set (p_console (server_main env_https world_without_certs))
   \<and> http_open (server_main env_https world_without_certs)
   \<and> httpsServer (server_main env_https world_without_certs) = None
   \<and> \<not> https_open (server_main env_https world_without_certs)
   \<and> exit_code (server_main env_https world_without_certs) = None"
proof -
  have a: "ENABLE_HTTPS env_https" by (simp add: ENABLE_HTTPS_def env_https_def)
  have b: "file_unusable world_without_certs (resolve world_without_certs (keyPath env_https))"
    by (simp add: file_unusable_def world_without_certs_def)
  show ?thesis
    using https_startup_failure_not_fatal [OF a, of world_without_certs] a b by blast
qed

subsection \<open>Shutdown\<close>

lemma run_exited: "exit_code p \<noteq> None \<Longrightarrow> run evs p = p"
  by (induction evs) (simp_all add: step_def)

lemma run_append: "run (xs @ ys) p = run ys (run xs p)"
  by (induction xs arbitrary: p) simp_all

lemma gracefulShutdown_state:
  assumes "running p"
  shows "shutting_down False (httpsServer p = None) (gracefulShutdown signal p)"
    "httpsServer (gracefulShutdown signal p) = httpsServer p"
    "\<not> http_open (gracefulShutdown signal p)"
    "httpsServer p \<noteq> None \<Longrightarrow> \<not> https_open (gracefulShutdown signal p)"
    "timer (gracefulShutdown signal p) = Some (10000,
       ''Could not close connections in time, forcefully shutting down'')"
  using assms
  by (auto simp add: gracefulShutdown_def shutting_down_def running_def Let_def console_line_def
      close_http_def close_https_def SHUTDOWN_TIMEOUT_def)

lemma step_http_closed:
  assumes "shutting_down a b p"
  shows "if b then exit_code (step (HttpClosed err) p) = Some 0
         else shutting_down True b (step (HttpClosed err) p)"
  using assms
  by (auto simp add: shutting_down_def step_def run_callback_def checkAndExit_def exit_def
      console_line_def split: option.splits)

lemma step_https_closed:
  assumes "shutting_down a b p"
  shows "if a then exit_code (step (HttpsClosed err) p) = Some 0
         else shutting_down a True (step (HttpsClosed err) p)"
  using assms
  by (auto simp add: shutting_down_def step_def run_callback_def checkAndExit_def exit_def
      console_line_def split: option.splits)

lemma step_timeout:
  assumes "shutting_down a b p"
  shows "exit_code (step Timeout p) = Some 1"
  using assms
  by (auto simp add: shutting_down_def step_def on_timeout_def exit_def console_line_def
      split: option.splits)

lemma run_no_timeout:
  assumes "shutting_down a b p" "Timeout \<notin> set evs"
  shows "if (a \<or> http_reported evs) \<and> (b \<or> https_reported evs)
         then exit_code (run evs p) = Some 0
         else shutting_down (a \<or> http_reported evs) (b \<or> https_reported evs) (run evs p)"
  using assms
proof (induction evs arbitrary: a b p)
  case Nil
  then show ?case by (simp add: shutting_down_def)
next
  case (Cons ev evs)
  then have nt: "Timeout \<notin> set evs" by simp
  show ?case
  proof (cases ev)
    case (HttpClosed err)
    show ?thesis
    proof (cases b)
      case True
      then have "exit_code (step ev p) = Some 0"
        using step_http_closed [OF Cons.prems(1), of err] HttpClosed by simp
      then show ?thesis using True HttpClosed by (simp add: run_exited)
    next
      case False
      then have "shutting_down True b (step ev p)"
        using step_http_closed [OF Cons.prems(1), of err] HttpClosed by simp
      from Cons.IH [OF this nt] show ?thesis using HttpClosed False by (auto split: if_splits)
    qed
  next
    case (HttpsClosed err)
    show ?thesis
    proof (cases a)
      case True
      then have "exit_code (step ev p) = Some 0"
        using step_https_closed [OF Cons.prems(1), of err] HttpsClosed by simp
      then show ?thesis using True HttpsClosed by (simp add: run_exited)
    next
      case False
      then have "shutting_down a True (step ev p)"
        using step_https_closed [OF Cons.prems(1), of err] HttpsClosed by simp
      from Cons.IH [OF this nt] show ?thesis using HttpsClosed False by (auto split: if_splits)
    qed
  next
    case Timeout
    with Cons.prems(2) show ?thesis by simp
  qed
qed

lemma gracefulShutdown_stops_accepting:
  assumes "running p"
  shows "\<not> http_open (gracefulShutdown signal p)"
    "httpsServer p \<noteq> None \<Longrightarrow> \<not> https_open (gracefulShutdown signal p)"
  using gracefulShutdown_state [OF assms] by simp_all

lemma gracefulShutdown_exit_zero:
  assumes "running p" "Timeout \<notin> set evs" "http_reported evs"
    "httpsServer p = None \<or> https_reported evs"
  shows "exit_code (run evs (gracefulShutdown signal p)) = Some 0"
  using run_no_timeout [OF gracefulShutdown_state(1) [OF assms(1)] assms(2), of signal] assms(3,4)
  by auto

lemma gracefulShutdown_waits:
  assumes "running p" "Timeout \<notin> set evs"
    "\<not> (http_reported evs \<and> (httpsServer p = None \<or> https_reported evs))"
  shows "exit_code (run evs (gracefulShutdown signal p)) = None"
  using run_no_timeout [OF gracefulShutdown_state(1) [OF assms(1)] assms(2), of signal] assms(3)
  by (auto simp add: shutting_down_def split: if_splits)

lemma gracefulShutdown_forced_exit:
  assumes "running p" "Timeout \<notin> set pre"
    "\<not> (http_reported pre \<and> (httpsServer p = None \<or> https_reported pre))"
  shows "exit_code (run (pre @ Timeout # post) (gracefulShutdown signal p)) = Some 1"
proof -
  let ?q = "run pre (gracefulShutdown signal p)"
  have "shutting_down (http_reported pre) (httpsServer p = None \<or> https_reported pre) ?q"
    using run_no_timeout [OF gracefulShutdown_state(1) [OF assms(1)] assms(2), of signal] assms(3)
    by (auto split: if_splits)
  then have "exit_code (step Timeout ?q) = Some 1" by (rule step_timeout)
  then have "run post (step Timeout ?q) = step Timeout ?q \<and> exit_code (step Timeout ?q) = Some 1"
    by (simp add: run_exited)
  then show ?thesis by (simp add: run_append)
qed

lemma gracefulShutdown_part000_https:
  "https_open (gracefulShutdown_part000 signal p) = https_open p"
  "https_cb (gracefulShutdown_part000 signal p) = https_cb p"
  by (simp_all add: gracefulShutdown_part000_def Let_def close_http_def console_line_def)

text \<open>
  C6.  On a termination signal every active listener is to stop accepting connections.
  The \<^verbatim>\<open>gracefulShutdown\<close> of server.js closes both listeners at once (lemmas
  \<open>gracefulShutdown_stops_accepting\<close>, \<open>gracefulShutdown_exit_zero\<close>,
  \<open>gracefulShutdown_forced_exit\<close>).  The \<^verbatim>\<open>gracefulShutdown\<close> of the second server module
  closes the HTTPS listener only inside the close callback of the HTTP listener: with
  both listeners running, after SIGTERM the HTTPS listener still accepts connections,
  and when the HTTP listener does not close in time it does so until the forced exit
  with code 1.  When both listeners report closed in turn, that module exits with
  code 0 as well.
\<close>

theorem part000_shutdown_leaves_https_accepting:
  "running both_listening \<and> httpsServer both_listening \<noteq> None
   \<and> \<not> https_open (gracefulShutdown ''SIGTERM'' both_listening)
   \<and> https_open (gracefulShutdown_part000 ''SIGTERM'' both_listening)
   \<and> https_open (run [Timeout] (gracefulShutdown_part000 ''SIGTERM'' both_listening))
   \<and> exit_code (run [Timeout] (gracefulShutdown_part000 ''SIGTERM'' both_listening)) = Some 1
   \<and> exit_code (run [HttpClosed None, HttpsClosed None]
        (gracefulShutdown_part000 ''SIGTERM'' both_listening)) = Some 0"
  by (simp add: both_listening_def boot_def running_def gracefulShutdown_def
      gracefulShutdown_part000_def Let_def close_http_def close_https_def console_line_def step_def
      on_timeout_def exit_def run_callback_def example_server_def)

end
